theory Spec2Isabelle
  imports Complex_Main "HOL-Library.Sublist"
begin

section \<open>The dubbing backend (src/build/modal\_backend.py)\<close>

text \<open>
  Conventions of the embedding.
  \<^item> Python values that may be \<open>None\<close> are options: a \<open>pystr\<close> is a \<open>str\<close> or \<open>None\<close>.
  \<^item> \<open>time.time()\<close> and the stored timestamps are Python floats; they are read here as
    the real numbers they denote, and \<open>now - t < 86400\<close> is compared in the reals.
  \<^item> The shared \<open>modal.Dict\<close> named \<open>rate_limiter\<close> is a map from client identifier to
    its list of timestamps.
\<close>

type_synonym pystr = "string option"

type_synonym rate_db = "string \<rightharpoonup> real list"

subsection \<open>The rate limiter: \<open>check_daily_limit\<close>\<close>

text \<open>\<open>[t for t in timestamps if now - t < 86400]\<close>\<close>

definition valid_timestamps :: "real \<Rightarrow> real list \<Rightarrow> real list" where
  "valid_timestamps now timestamps = filter (\<lambda>t. now - t < 86400) timestamps"

text \<open>\<open>rate_limiter.get(client_id, [])\<close>, and \<open>[]\<close> as well on \<open>KeyError\<close>.\<close>

definition stored_timestamps :: "rate_db \<Rightarrow> string \<Rightarrow> real list" where
  "stored_timestamps db cid = (case db cid of None \<Rightarrow> [] | Some ts \<Rightarrow> ts)"

text \<open>
  \<open>check_daily_limit client_id\<close>, with the clock reading \<open>now\<close> and the store passed in;
  the result is the returned boolean and the store afterwards.
  \<open>not client_id\<close> holds for \<open>None\<close> and for the empty string.
\<close>

definition check_daily_limit :: "pystr \<Rightarrow> real \<Rightarrow> rate_db \<Rightarrow> bool \<times> rate_db" where
  "check_daily_limit cid_arg now db =
     (case cid_arg of
        None \<Rightarrow> (True, db)
      | Some cid \<Rightarrow>
          if cid = [] \<or> cid = ''anonymous'' then (True, db)
          else
            let timestamps = stored_timestamps db cid;
                valid = valid_timestamps now timestamps
            in if length valid \<ge> 3 then (False, db)
               else (True, db(cid \<mapsto> valid @ [now])))"

subsection \<open>The gender classifier: \<open>detect_gender\<close>\<close>

text \<open>
  Exceptions. \<open>ffmpeg.Error\<close> and \<open>KeyError\<close> are told apart because the code does;
  every other exception deriving from \<open>Exception\<close> carries its name.
\<close>

datatype exn = FfmpegError | KeyError | Exception string

text \<open>
  \<open>np.nanmean(f0)\<close>: the mean of the entries that are not NaN, and NaN when there is none.
  An unvoiced frame (NaN) is \<open>None\<close>; the mean is taken in the reals.
\<close>

definition nanmean :: "real option list \<Rightarrow> real option" where
  "nanmean f0 =
     (let voiced = List.map_filter (\<lambda>x. x) f0
      in if voiced = [] then None else Some (sum_list voiced / real (length voiced)))"

text \<open>
  The two library calls of \<open>detect_gender\<close>: \<open>librosa.load(path, sr, duration)\<close> and
  \<open>librosa.pyin(y, fmin, fmax)\<close>, each raising or returning.
\<close>

record audio_lib =
  librosa_load :: "string \<Rightarrow> nat option \<Rightarrow> nat option \<Rightarrow> exn + real list"
  librosa_pyin :: "real list \<Rightarrow> real \<Rightarrow> real \<Rightarrow> exn + real option list"

text \<open>The body of the \<open>try\<close> block of \<open>detect_gender\<close>.\<close>

definition detect_gender_body :: "'a audio_lib_scheme \<Rightarrow> string \<Rightarrow> exn + string" where
  "detect_gender_body w audio_path =
     (case librosa_load w audio_path None (Some 30) of
        Inl e \<Rightarrow> Inl e
      | Inr y \<Rightarrow>
          (case librosa_pyin w y 50 400 of
             Inl e \<Rightarrow> Inl e
           | Inr f0 \<Rightarrow>
               (case nanmean f0 of
                  None \<Rightarrow> Inr ''Male''
                | Some mean_pitch \<Rightarrow> Inr (if mean_pitch > 165 then ''Female'' else ''Male''))))"

text \<open>\<open>try: ... except Exception as e: return "Male"\<close>\<close>

definition detect_gender :: "'a audio_lib_scheme \<Rightarrow> string \<Rightarrow> exn + string" where
  "detect_gender w audio_path =
     (case detect_gender_body w audio_path of
        Inl e \<Rightarrow> Inr ''Male''
      | Inr gender \<Rightarrow> Inr gender)"

subsection \<open>Requests, responses, segments\<close>

text \<open>
  The request body \<open>item\<close>: \<open>job_id\<close> and \<open>video_url\<close> are read with \<open>item[...]\<close>,
  \<open>target_lang\<close> and \<open>client_id\<close> with \<open>item.get\<close>, so they may be missing
  (\<open>None\<close> here); a present \<open>client_id\<close> may itself be JSON \<open>null\<close>.
\<close>

record item =
  job_id :: string
  video_url :: string
  target_lang :: "string option"
  client_id :: "pystr option"

text \<open>\<open>{"status": "error", "message": m}\<close> and \<open>{"status": "success", "video_url": url}\<close>\<close>

datatype response = Error string | Success string

text \<open>
  A transcript segment: \<open>seg["start"]\<close>, \<open>seg["end"]\<close>, \<open>seg["text"]\<close>, the speaker label,
  and \<open>seg["translated_text"]\<close>, which is missing until the translation step sets it.
\<close>

record segment =
  seg_start :: real
  seg_end :: real
  seg_text :: string
  speaker :: pystr
  translated_text :: pystr

text \<open>\<open>not seg.get("translated_text")\<close>: the key is missing or the text is empty.\<close>

definition falsy :: "pystr \<Rightarrow> bool" where
  "falsy s \<longleftrightarrow> s = None \<or> s = Some []"

subsection \<open>Input validation\<close>

text \<open>The character class \<open>[a-zA-Z0-9_-]\<close>.\<close>

definition safe_char :: "char \<Rightarrow> bool" where
  "safe_char c \<longleftrightarrow>
     c \<in> set ''abcdefghijklmnopqrstuvwxyzABCDEFGHIJKLMNOPQRSTUVWXYZ0123456789_-''"

text \<open>\<open>[a-zA-Z0-9_-]+\<close> matches the whole of \<open>s\<close>.\<close>

definition all_safe :: "string \<Rightarrow> bool" where
  "all_safe s \<longleftrightarrow> s \<noteq> [] \<and> list_all safe_char s"

text \<open>
  \<open>re.match(r"^[a-zA-Z0-9_-]+$", job_id)\<close>. In Python's \<open>re\<close>, without \<open>MULTILINE\<close>,
  \<open>$\<close> matches at the end of the string and also just before a newline that ends the
  string.
\<close>

definition re_match_job_id :: "string \<Rightarrow> bool" where
  "re_match_job_id jid \<longleftrightarrow>
     all_safe jid \<or> (jid \<noteq> [] \<and> last jid = CHR 0x0A \<and> all_safe (butlast jid))"

text \<open>\<open>video_url.startswith(("http://", "https://"))\<close>\<close>

definition startswith_http :: "string \<Rightarrow> bool" where
  "startswith_http url \<longleftrightarrow> prefix ''http://'' url \<or> prefix ''https://'' url"

text \<open>
  The scheme of a locator, in the words of the specification: the part before the first
  colon. It is used only to state the claim about schemes.
\<close>

definition scheme :: "string \<Rightarrow> string" where
  "scheme url = takeWhile (\<lambda>c. c \<noteq> CHR '':'') url"

subsection \<open>State, external calls and their trace\<close>

text \<open>
  The filter graph that the mixing step hands to \<open>ffmpeg-python\<close>: inputs, the video
  part of an input, filters with their positional and keyword arguments, and the output
  with its keyword arguments.
\<close>

datatype arg = AStr string | AReal real | ANat nat

datatype stream =
    Input string
  | Video stream
  | Filter "stream list" string "arg list" "(string \<times> arg) list"

datatype ffmpeg_output = Output "stream list" string "(string \<times> arg) list"

text \<open>
  Every call that leaves the process (network, subprocess, model, file system) is recorded,
  in order, with the arguments the code passes.
\<close>

datatype event =
    CheckDailyLimit pystr
  | MakeDirs string
  | RequestsGet string string
  | FfmpegExtract string string
  | Demucs string string
  | LoadWhisper
  | Transcribe string
  | LoadAlignModel string
  | Align string
  | LoadDiarizer
  | Diarize
  | NewTranslator string
  | Translate string
  | LoadXtts
  | XttsTts string string string
  | DetectGender string
  | EdgeTts string string string
  | LibrosaLoad string nat
  | OsRemove string
  | SfWrite string "real list" nat
  | FfmpegRun ffmpeg_output bool
  | Upload string string
  | RmTree string

text \<open>
  What persists between statements and between jobs: \<open>os.environ\<close>, the shared
  \<open>rate_limiter\<close> store, the directories on the volume, and the module-level model cache.
  \<open>ALIGN_MODEL\<close> (with \<open>ALIGN_METADATA\<close>) holds the language the cached alignment model
  was loaded for; the other cached models are told apart only from \<open>None\<close>.
\<close>

record state =
  environ :: "string \<rightharpoonup> string"
  rate_limiter :: rate_db
  fs :: "string set"
  WHISPER_MODEL :: "unit option"
  ALIGN_MODEL :: "string option"
  DIARIZER :: "unit option"
  XTTS_MODEL :: "unit option"

text \<open>
  The outcomes of the external calls of one job. A call raises (\<open>Inl\<close>) or returns
  (\<open>Inr\<close>); calls made once per segment are indexed by the position of the segment, so
  that two calls on the same text may differ.
  \<^item> \<open>requests_get url\<close>: \<open>requests.get\<close>, \<open>raise_for_status\<close> and the streaming to disk;
  \<^item> \<open>ffmpeg_extract\<close>, \<open>run_demucs\<close>: the two \<open>subprocess.run(..., check=True)\<close>;
  \<^item> \<open>os_walk top\<close>: the \<open>(root, files)\<close> pairs of \<open>os.walk(top)\<close>, in its order;
  \<^item> \<open>whisper_transcribe vocals\<close>: \<open>load_audio\<close> and \<open>transcribe\<close>, giving the detected
    language and the segments;
  \<^item> \<open>whisperx_align m segs\<close>: \<open>whisperx.align\<close> with the alignment model loaded for
    language \<open>m\<close>;
  \<^item> \<open>load_diarizer\<close>: \<open>os.environ["HF_TOKEN"]\<close> and the pipeline constructor;
    \<open>diarize_assign\<close>: the diarizer run and \<open>assign_word_speakers\<close>;
  \<^item> \<open>r2_upload file key\<close>: the client construction, \<open>upload_file\<close> and
    \<open>generate_presigned_url\<close>, giving the URL.
\<close>

record world = audio_lib +
  time_time :: real
  requests_get :: "string \<Rightarrow> exn + unit"
  ffmpeg_extract :: "string \<Rightarrow> string \<Rightarrow> exn + unit"
  run_demucs :: "string \<Rightarrow> string \<Rightarrow> exn + unit"
  os_walk :: "string \<Rightarrow> (string \<times> string list) list"
  whisperx_load_model :: "exn + unit"
  whisper_transcribe :: "string \<Rightarrow> exn + string \<times> segment list"
  whisperx_load_align_model :: "string \<Rightarrow> exn + unit"
  whisperx_align :: "string \<Rightarrow> segment list \<Rightarrow> exn + segment list"
  load_diarizer :: "exn + unit"
  diarize_assign :: "segment list \<Rightarrow> exn + segment list"
  google_translator :: "string \<Rightarrow> exn + unit"
  translator_translate :: "nat \<Rightarrow> string \<Rightarrow> exn + string"
  load_xtts :: "exn + unit"
  xtts_tts :: "nat \<Rightarrow> string \<Rightarrow> string \<Rightarrow> string \<Rightarrow> exn + real list"
  edge_tts_save :: "nat \<Rightarrow> string \<Rightarrow> string \<Rightarrow> string \<Rightarrow> exn + unit"
  os_path_exists :: "string \<Rightarrow> bool"
  sf_write :: "string \<Rightarrow> real list \<Rightarrow> nat \<Rightarrow> exn + unit"
  ffmpeg_run :: "ffmpeg_output \<Rightarrow> exn + unit"
  r2_upload :: "string \<Rightarrow> string \<Rightarrow> exn + string"

text \<open>
  A statement sequence either raises, executes \<open>return\<close>, or goes on to the next statement
  with a value; it also yields the state afterwards and the calls it made.
\<close>

datatype 'a flow = Raise exn | Return response | Next 'a

type_synonym 'a step = "state \<Rightarrow> 'a flow \<times> state \<times> event list"

definition and_then :: "'a step \<Rightarrow> ('a \<Rightarrow> 'b step) \<Rightarrow> 'b step" where
  "and_then m f st =
     (case m st of
        (Raise e, st1, tr1) \<Rightarrow> (Raise e, st1, tr1)
      | (Return r, st1, tr1) \<Rightarrow> (Return r, st1, tr1)
      | (Next a, st1, tr1) \<Rightarrow> (case f a st1 of (r, st2, tr2) \<Rightarrow> (r, st2, tr1 @ tr2)))"

definition pass :: "'a \<Rightarrow> 'a step" where
  "pass v st = (Next v, st, [])"

definition ret :: "response \<Rightarrow> 'a step" where
  "ret r st = (Return r, st, [])"

definition lift :: "exn + 'a \<Rightarrow> 'a step" where
  "lift r st = (case r of Inl e \<Rightarrow> (Raise e, st, []) | Inr v \<Rightarrow> (Next v, st, []))"

definition call :: "event \<Rightarrow> exn + 'a \<Rightarrow> 'a step" where
  "call ev r st = (case r of Inl e \<Rightarrow> (Raise e, st, [ev]) | Inr v \<Rightarrow> (Next v, st, [ev]))"

definition update :: "(state \<Rightarrow> state) \<Rightarrow> unit step" where
  "update f st = (Next (), f st, [])"

definition effect :: "event \<Rightarrow> (state \<Rightarrow> state) \<Rightarrow> unit step" where
  "effect ev f st = (Next (), f st, [ev])"

definition emit :: "event list \<Rightarrow> unit step" where
  "emit evs st = (Next (), st, evs)"

subsection \<open>Paths and small helpers\<close>

definition MOUNT_PATH :: string where
  "MOUNT_PATH = ''/data''"

definition BASE_DIR :: string where
  "BASE_DIR = MOUNT_PATH @ ''/dubbing''"

text \<open>\<open>os.path.join(dir, name)\<close> for a relative \<open>name\<close>.\<close>

definition os_path_join :: "string \<Rightarrow> string \<Rightarrow> string" where
  "os_path_join dir name =
     (if dir = [] then name
      else if last dir = CHR ''/'' then dir @ name
      else dir @ ''/'' @ name)"

text \<open>The decimal digits of \<open>i\<close>, as \<open>{i}\<close> in an f-string prints them.\<close>

fun str_nat :: "nat \<Rightarrow> string" where
  "str_nat n =
     (if n < 10 then [char_of (48 + n)]
      else str_nat (n div 10) @ [char_of (48 + n mod 10)])"

text \<open>
  \<open>shutil.rmtree(path, ignore_errors=True)\<close>: the directory and everything below it
  are gone.
\<close>

definition rmtree :: "string \<Rightarrow> string set \<Rightarrow> string set" where
  "rmtree path dirs = Set.filter (\<lambda>p. \<not> (p = path \<or> prefix (path @ ''/'') p)) dirs"

definition job_dir :: "string \<Rightarrow> string" where
  "job_dir jid = BASE_DIR @ ''/'' @ jid"

definition video_path :: "string \<Rightarrow> string" where
  "video_path jid = job_dir jid @ ''/video.mp4''"

definition audio_path :: "string \<Rightarrow> string" where
  "audio_path jid = job_dir jid @ ''/audio.wav''"

definition dubbed_audio :: "string \<Rightarrow> string" where
  "dubbed_audio jid = job_dir jid @ ''/dubbed.wav''"

definition final_video :: "string \<Rightarrow> string" where
  "final_video jid = job_dir jid @ ''/final_dubbed.mp4''"

definition demucs_out :: "string \<Rightarrow> string" where
  "demucs_out jid = job_dir jid @ ''/separated''"

subsection \<open>The pipeline: \<open>dub_video\<close>, statement by statement\<close>

definition set_runtime_config :: "state \<Rightarrow> state" where
  "set_runtime_config st = st\<lparr>environ := (environ st)
       (''HF_HOME'' \<mapsto> MOUNT_PATH @ ''/models/hf'',
        ''TORCH_HOME'' \<mapsto> MOUNT_PATH @ ''/models/torch'',
        ''TTS_HOME'' \<mapsto> MOUNT_PATH @ ''/models/tts'',
        ''XDG_CACHE_HOME'' \<mapsto> MOUNT_PATH @ ''/cache'',
        ''COQUI_TOS_AGREED'' \<mapsto> ''1'')\<rparr>"

definition runtime_config :: "unit step" where
  "runtime_config = update set_runtime_config"

text \<open>\<open>item.get("target_lang", "hi")\<close> and \<open>item.get("client_id", "unknown_user")\<close>\<close>

definition request_target_lang :: "item \<Rightarrow> string" where
  "request_target_lang it = (case target_lang it of None \<Rightarrow> ''hi'' | Some l \<Rightarrow> l)"

definition request_client_id :: "item \<Rightarrow> pystr" where
  "request_client_id it = (case client_id it of None \<Rightarrow> Some ''unknown_user'' | Some c \<Rightarrow> c)"

definition security_checks :: "string \<Rightarrow> string \<Rightarrow> unit step" where
  "security_checks jid url =
     (if \<not> re_match_job_id jid then ret (Error ''Invalid job_id format. Security Block.'')
      else if \<not> startswith_http url then ret (Error ''Invalid URL scheme.'')
      else pass ())"

definition rate_limit_check :: "world \<Rightarrow> pystr \<Rightarrow> unit step" where
  "rate_limit_check w cid st =
     (case check_daily_limit cid (time_time w) (rate_limiter st) of
        (allowed, db) \<Rightarrow>
          (if \<not> allowed
           then Return (Error ''Daily limit reached (3/3). Please try again in 24 hours.'')
           else Next (),
           st\<lparr>rate_limiter := db\<rparr>,
           [CheckDailyLimit cid]))"

text \<open>\<open>os.makedirs(job_dir, exist_ok=True)\<close>\<close>

definition setup_directories :: "string \<Rightarrow> unit step" where
  "setup_directories jid =
     effect (MakeDirs (job_dir jid)) (\<lambda>st. st\<lparr>fs := insert (job_dir jid) (fs st)\<rparr>)"

text \<open>Everything before \<open># 1. DOWNLOAD VIDEO\<close>.\<close>

definition entry :: "world \<Rightarrow> item \<Rightarrow> unit step" where
  "entry w it =
     and_then runtime_config (\<lambda>_.
     and_then (security_checks (job_id it) (video_url it)) (\<lambda>_.
     and_then (rate_limit_check w (request_client_id it)) (\<lambda>_.
     setup_directories (job_id it))))"

definition download_video :: "world \<Rightarrow> string \<Rightarrow> string \<Rightarrow> unit step" where
  "download_video w jid url = call (RequestsGet url (video_path jid)) (requests_get w url)"

definition extract_audio :: "world \<Rightarrow> string \<Rightarrow> unit step" where
  "extract_audio w jid =
     call (FfmpegExtract (video_path jid) (audio_path jid))
          (ffmpeg_extract w (video_path jid) (audio_path jid))"

text \<open>The \<open>os.walk\<close> loop: the first directory that holds \<open>vocals.wav\<close>.\<close>

fun find_vocals :: "(string \<times> string list) list \<Rightarrow> (string \<times> string) option" where
  "find_vocals [] = None"
| "find_vocals ((dir, files) # rest) =
     (if ''vocals.wav'' \<in> set files
      then Some (os_path_join dir ''vocals.wav'', os_path_join dir ''no_vocals.wav'')
      else find_vocals rest)"

text \<open>\<open>shutil.rmtree(job_dir, ignore_errors=True)\<close>\<close>

definition discard_job_dir :: "string \<Rightarrow> unit step" where
  "discard_job_dir jid =
     effect (RmTree (job_dir jid)) (\<lambda>st. st\<lparr>fs := rmtree (job_dir jid) (fs st)\<rparr>)"

definition demucs :: "world \<Rightarrow> string \<Rightarrow> (string \<times> string) step" where
  "demucs w jid =
     and_then (call (Demucs (demucs_out jid) (audio_path jid))
                    (run_demucs w (demucs_out jid) (audio_path jid))) (\<lambda>_.
     case find_vocals (os_walk w (demucs_out jid)) of
       None \<Rightarrow> and_then (discard_job_dir jid) (\<lambda>_. ret (Error ''Demucs failed''))
     | Some (vocals, bg) \<Rightarrow> pass (vocals, bg))"

text \<open>\<open>if X is None: X = load()\<close>, and \<open>X\<close> afterwards.\<close>

definition load_once ::
  "(state \<Rightarrow> 'a option) \<Rightarrow> ('a \<Rightarrow> state \<Rightarrow> state) \<Rightarrow> 'a step \<Rightarrow> 'a step" where
  "load_once cached store loader st =
     (case cached st of
        None \<Rightarrow> and_then loader (\<lambda>v. and_then (update (store v)) (\<lambda>_. pass v)) st
      | Some v \<Rightarrow> pass v st)"

definition whisperx :: "world \<Rightarrow> string \<Rightarrow> segment list step" where
  "whisperx w vocals =
     and_then (load_once WHISPER_MODEL (\<lambda>v st. st\<lparr>WHISPER_MODEL := Some v\<rparr>)
                 (call LoadWhisper (whisperx_load_model w))) (\<lambda>_.
     and_then (call (Transcribe vocals) (whisper_transcribe w vocals)) (\<lambda>(lang, segments).
     and_then (load_once ALIGN_MODEL (\<lambda>v st. st\<lparr>ALIGN_MODEL := Some v\<rparr>)
                 (and_then (call (LoadAlignModel lang) (whisperx_load_align_model w lang))
                    (\<lambda>_. pass lang))) (\<lambda>align_model.
     and_then (call (Align align_model) (whisperx_align w align_model segments)) (\<lambda>aligned.
     and_then (load_once DIARIZER (\<lambda>v st. st\<lparr>DIARIZER := Some v\<rparr>)
                 (call LoadDiarizer (load_diarizer w))) (\<lambda>_.
     call Diarize (diarize_assign w aligned))))))"

text \<open>
  \<open>try: seg["translated_text"] = translator.translate(seg["text"])\<close>,
  \<open>except: seg["translated_text"] = seg["text"]\<close>
\<close>

definition translate_segment :: "world \<Rightarrow> nat \<times> segment \<Rightarrow> segment" where
  "translate_segment w = (\<lambda>(i, seg).
     seg\<lparr>translated_text :=
       Some (case translator_translate w i (seg_text seg) of
               Inl e \<Rightarrow> seg_text seg
             | Inr t \<Rightarrow> t)\<rparr>)"

definition translation :: "world \<Rightarrow> string \<Rightarrow> segment list \<Rightarrow> segment list step" where
  "translation w lang segments =
     and_then (call (NewTranslator lang) (google_translator w lang)) (\<lambda>_.
     and_then (emit (map (\<lambda>seg. Translate (seg_text seg)) segments)) (\<lambda>_.
     pass (map (translate_segment w) (enumerate 0 segments))))"

definition xtts_langs :: "string list" where
  "xtts_langs = [''en'', ''es'', ''fr'', ''de'', ''it'', ''pt'', ''pl'', ''tr'', ''ru'',
                 ''nl'', ''cs'', ''ar'', ''zh'', ''ja'', ''ko'', ''hi'']"

text \<open>
  The cloning loop: a segment without translated text is skipped; a failed
  \<open>XTTS_MODEL.tts\<close> is caught and adds nothing; otherwise the samples are appended.
\<close>

fun xtts_loop ::
  "world \<Rightarrow> string \<Rightarrow> string \<Rightarrow> (nat \<times> segment) list \<Rightarrow> real list \<Rightarrow> real list \<times> event list" where
  "xtts_loop w vocals lang [] combined = (combined, [])"
| "xtts_loop w vocals lang ((i, seg) # rest) combined =
     (case translated_text seg of
        None \<Rightarrow> xtts_loop w vocals lang rest combined
      | Some txt \<Rightarrow>
          if txt = [] then xtts_loop w vocals lang rest combined
          else
            (case xtts_tts w i txt vocals lang of
               Inl e \<Rightarrow>
                 (case xtts_loop w vocals lang rest combined of
                    (c, tr) \<Rightarrow> (c, XttsTts txt vocals lang # tr))
             | Inr wav \<Rightarrow>
                 (case xtts_loop w vocals lang rest (combined @ wav) of
                    (c, tr) \<Rightarrow> (c, XttsTts txt vocals lang # tr))))"

definition write_dubbed :: "world \<Rightarrow> string \<Rightarrow> real list \<Rightarrow> unit step" where
  "write_dubbed w jid combined =
     call (SfWrite (dubbed_audio jid) combined 24000)
          (sf_write w (dubbed_audio jid) combined 24000)"

definition xtts_cloning ::
  "world \<Rightarrow> string \<Rightarrow> string \<Rightarrow> string \<Rightarrow> segment list \<Rightarrow> unit step" where
  "xtts_cloning w jid lang vocals segments =
     and_then (load_once XTTS_MODEL (\<lambda>v st. st\<lparr>XTTS_MODEL := Some v\<rparr>)
                 (call LoadXtts (load_xtts w))) (\<lambda>_.
     case xtts_loop w vocals lang (enumerate 0 segments) [] of
       (combined, tr) \<Rightarrow> and_then (emit tr) (\<lambda>_. write_dubbed w jid combined))"

definition edge_voices :: "(string \<times> (string \<times> string) list) list" where
  "edge_voices =
     [(''kn'', [(''Male'', ''kn-IN-GaganNeural''), (''Female'', ''kn-IN-SapnaNeural'')]),
      (''te'', [(''Male'', ''te-IN-MohanNeural''), (''Female'', ''te-IN-ShrutiNeural'')]),
      (''ta'', [(''Male'', ''ta-IN-ValluvarNeural''), (''Female'', ''ta-IN-PallaviNeural'')]),
      (''ml'', [(''Male'', ''ml-IN-MidhunNeural''), (''Female'', ''ml-IN-SobhanaNeural'')]),
      (''mr'', [(''Male'', ''mr-IN-ManoharNeural''), (''Female'', ''mr-IN-AarohiNeural'')]),
      (''gu'', [(''Male'', ''gu-IN-NiranjanNeural''), (''Female'', ''gu-IN-DhwaniNeural'')]),
      (''bn'', [(''Male'', ''bn-BD-PradeepNeural''), (''Female'', ''bn-BD-NabanitaNeural'')]),
      (''ur'', [(''Male'', ''ur-PK-UzairNeural''), (''Female'', ''ur-PK-UzmaNeural'')])]"

definition default_voices :: "(string \<times> string) list" where
  "default_voices =
     [(''Male'', ''en-US-ChristopherNeural''), (''Female'', ''en-US-JennyNeural'')]"

text \<open>
  \<open>lang_voices = edge_voices.get(target_lang, default)\<close>, then
  \<open>lang_voices.get(gender, lang_voices["Male"])\<close>, whose default is evaluated first.
\<close>

definition select_voice :: "string \<Rightarrow> string \<Rightarrow> exn + string" where
  "select_voice lang gender =
     (let lang_voices = (case map_of edge_voices lang of
                           None \<Rightarrow> default_voices
                         | Some v \<Rightarrow> v)
      in case map_of lang_voices ''Male'' of
           None \<Rightarrow> Inl KeyError
         | Some male \<Rightarrow>
             Inr (case map_of lang_voices gender of None \<Rightarrow> male | Some v \<Rightarrow> v))"

definition temp_seg_file :: "string \<Rightarrow> nat \<Rightarrow> string" where
  "temp_seg_file jid i = job_dir jid @ ''/temp_'' @ str_nat i @ ''.mp3''"

text \<open>
  The fallback loop: a segment without translated text is skipped; the synthesis
  (\<open>asyncio.run(generate_edge_tts(...))\<close>) or the read-back (\<open>librosa.load(f, sr=24000)\<close>)
  may fail, which is caught and adds nothing; otherwise the samples are appended and the
  temporary file is removed if it exists (a failure of \<open>os.remove\<close> is caught and changes
  nothing).
\<close>

fun edge_loop ::
  "world \<Rightarrow> string \<Rightarrow> string \<Rightarrow> (nat \<times> segment) list \<Rightarrow> real list \<Rightarrow> real list \<times> event list" where
  "edge_loop w jid voice [] combined = (combined, [])"
| "edge_loop w jid voice ((i, seg) # rest) combined =
     (case translated_text seg of
        None \<Rightarrow> edge_loop w jid voice rest combined
      | Some txt \<Rightarrow>
          if txt = [] then edge_loop w jid voice rest combined
          else
            (case edge_tts_save w i txt voice (temp_seg_file jid i) of
               Inl e \<Rightarrow>
                 (case edge_loop w jid voice rest combined of
                    (c, tr) \<Rightarrow> (c, EdgeTts txt voice (temp_seg_file jid i) # tr))
             | Inr _ \<Rightarrow>
                 (case librosa_load w (temp_seg_file jid i) (Some 24000) None of
                    Inl e \<Rightarrow>
                      (case edge_loop w jid voice rest combined of
                         (c, tr) \<Rightarrow>
                           (c, EdgeTts txt voice (temp_seg_file jid i)
                               # LibrosaLoad (temp_seg_file jid i) 24000 # tr))
                  | Inr seg_wav \<Rightarrow>
                      (case edge_loop w jid voice rest (combined @ seg_wav) of
                         (c, tr) \<Rightarrow>
                           (c, EdgeTts txt voice (temp_seg_file jid i)
                               # LibrosaLoad (temp_seg_file jid i) 24000
                               # (if os_path_exists w (temp_seg_file jid i)
                                  then [OsRemove (temp_seg_file jid i)] else []) @ tr)))))"

definition edge_tts_fallback ::
  "world \<Rightarrow> string \<Rightarrow> string \<Rightarrow> string \<Rightarrow> segment list \<Rightarrow> unit step" where
  "edge_tts_fallback w jid lang vocals segments =
     and_then (call (DetectGender vocals) (detect_gender w vocals)) (\<lambda>gender.
     and_then (lift (select_voice lang gender)) (\<lambda>selected_voice.
     case edge_loop w jid selected_voice (enumerate 0 segments) [] of
       (combined, tr) \<Rightarrow> and_then (emit tr) (\<lambda>_. write_dubbed w jid combined)))"

definition synthesis ::
  "world \<Rightarrow> string \<Rightarrow> string \<Rightarrow> string \<Rightarrow> segment list \<Rightarrow> unit step" where
  "synthesis w jid lang vocals segments =
     (if lang \<in> set xtts_langs then xtts_cloning w jid lang vocals segments
      else edge_tts_fallback w jid lang vocals segments)"

text \<open>
  The graph built in the mixing step: the video of \<open>video_path\<close>, the dubbed track, the
  background through \<open>volume\<close> 0.5, both through \<open>amix\<close>, written with the video codec
  \<open>copy\<close> and the audio codec \<open>aac\<close>.
\<close>

definition mix_graph :: "string \<Rightarrow> string \<Rightarrow> ffmpeg_output" where
  "mix_graph jid bg =
     (let v_stream = Video (Input (video_path jid));
          a_stream = Input (dubbed_audio jid);
          bg_stream = Filter [Input bg] ''volume'' [AReal 0.5] [];
          mixed = Filter [a_stream, bg_stream] ''amix'' []
                    [(''inputs'', ANat 2), (''duration'', AStr ''first'')]
      in Output [v_stream, mixed] (final_video jid)
           [(''vcodec'', AStr ''copy''), (''acodec'', AStr ''aac'')])"

text \<open>
  \<open>.run(overwrite_output=True)\<close> inside \<open>try\<close>; \<open>except ffmpeg.Error\<close> removes the job
  directory and returns the error; any other exception propagates.
\<close>

definition mixing :: "world \<Rightarrow> string \<Rightarrow> string \<Rightarrow> unit step" where
  "mixing w jid bg =
     (case ffmpeg_run w (mix_graph jid bg) of
        Inl FfmpegError \<Rightarrow>
          and_then (emit [FfmpegRun (mix_graph jid bg) True]) (\<lambda>_.
          and_then (discard_job_dir jid) (\<lambda>_.
          ret (Error ''Mixing failed'')))
      | r \<Rightarrow> call (FfmpegRun (mix_graph jid bg) True) r)"

definition upload :: "world \<Rightarrow> string \<Rightarrow> unit step" where
  "upload w jid =
     and_then (call (Upload (final_video jid) (''dubbed/'' @ jid @ ''.mp4''))
                    (r2_upload w (final_video jid) (''dubbed/'' @ jid @ ''.mp4''))) (\<lambda>url.
     and_then (discard_job_dir jid) (\<lambda>_.
     ret (Success url)))"

text \<open>Steps 1 to 4 of the source, giving the two stems and the transcript.\<close>

definition stages_1_4 :: "world \<Rightarrow> item \<Rightarrow> (string \<times> string \<times> segment list) step" where
  "stages_1_4 w it =
     and_then (download_video w (job_id it) (video_url it)) (\<lambda>_.
     and_then (extract_audio w (job_id it)) (\<lambda>_.
     and_then (demucs w (job_id it)) (\<lambda>(vocals, bg).
     and_then (whisperx w vocals) (\<lambda>segments.
     pass (vocals, bg, segments)))))"

text \<open>Steps 1 to 5: the translation step follows, on the segments of step 4.\<close>

definition stages_1_5 :: "world \<Rightarrow> item \<Rightarrow> (string \<times> string \<times> segment list) step" where
  "stages_1_5 w it =
     and_then (stages_1_4 w it) (\<lambda>(vocals, bg, segments).
     and_then (translation w (request_target_lang it) segments) (\<lambda>segments.
     pass (vocals, bg, segments)))"

text \<open>Steps 6 to 8 of the source.\<close>

definition stages_6_8 ::
  "world \<Rightarrow> item \<Rightarrow> string \<Rightarrow> string \<Rightarrow> segment list \<Rightarrow> unit step" where
  "stages_6_8 w it vocals bg segments =
     and_then (synthesis w (job_id it) (request_target_lang it) vocals segments) (\<lambda>_.
     and_then (mixing w (job_id it) bg) (\<lambda>_.
     upload w (job_id it)))"

definition dub_video :: "world \<Rightarrow> item \<Rightarrow> unit step" where
  "dub_video w it =
     and_then (entry w it) (\<lambda>_.
     and_then (stages_1_5 w it) (\<lambda>(vocals, bg, segments).
     stages_6_8 w it vocals bg segments))"

subsection \<open>Reading a trace\<close>

text \<open>The calls of the gender classifier, of the cloning synthesiser and of the fallback
  synthesiser in a trace, each with its arguments.\<close>

fun gender_calls :: "event list \<Rightarrow> string list" where
  "gender_calls [] = []"
| "gender_calls (DetectGender p # tr) = p # gender_calls tr"
| "gender_calls (e # tr) = gender_calls tr"

fun xtts_calls :: "event list \<Rightarrow> (string \<times> string \<times> string) list" where
  "xtts_calls [] = []"
| "xtts_calls (XttsTts t ref l # tr) = (t, ref, l) # xtts_calls tr"
| "xtts_calls (e # tr) = xtts_calls tr"

fun edge_calls :: "event list \<Rightarrow> (string \<times> string \<times> string) list" where
  "edge_calls [] = []"
| "edge_calls (EdgeTts t v f # tr) = (t, v, f) # edge_calls tr"
| "edge_calls (e # tr) = edge_calls tr"

text \<open>The alignment calls in a trace: the language of the model each one used.\<close>

fun align_calls :: "event list \<Rightarrow> string list" where
  "align_calls [] = []"
| "align_calls (Align m # tr) = m # align_calls tr"
| "align_calls (e # tr) = align_calls tr"

subsection \<open>A concrete job, for evaluating the pipeline\<close>

definition hello :: segment where
  "hello = \<lparr>seg_start = 0, seg_end = 2, seg_text = ''hello'', speaker = None,
            translated_text = None\<rparr>"

definition goodbye :: segment where
  "goodbye = \<lparr>seg_start = 2, seg_end = 5, seg_text = ''goodbye'', speaker = None,
              translated_text = None\<rparr>"

text \<open>
  A world in which every call succeeds, except that the translation of the second
  segment fails; the separator writes its stems under \<open>htdemucs/audio\<close>, the recogniser
  detects English and the pitch track has a mean of 210 Hz.
\<close>

definition good_world :: world where
  "good_world =
     \<lparr>librosa_load = (\<lambda>p sr d. Inr [1, 2]),
      librosa_pyin = (\<lambda>y lo hi. Inr [Some 200, None, Some 220]),
      time_time = 1700000000,
      requests_get = (\<lambda>url. Inr ()),
      ffmpeg_extract = (\<lambda>v a. Inr ()),
      run_demucs = (\<lambda>out a. Inr ()),
      os_walk = (\<lambda>top. [(top, []), (top @ ''/htdemucs'', []),
                          (top @ ''/htdemucs/audio'', [''no_vocals.wav'', ''vocals.wav''])]),
      whisperx_load_model = Inr (),
      whisper_transcribe = (\<lambda>v. Inr (''en'', [hello, goodbye])),
      whisperx_load_align_model = (\<lambda>l. Inr ()),
      whisperx_align = (\<lambda>m segs. Inr segs),
      load_diarizer = Inr (),
      diarize_assign = (\<lambda>segs. Inr segs),
      google_translator = (\<lambda>l. Inr ()),
      translator_translate =
        (\<lambda>i t. if i = 0 then Inr ''namaste'' else Inl (Exception ''RequestError'')),
      load_xtts = Inr (),
      xtts_tts = (\<lambda>i t v l. Inr [3, 4]),
      edge_tts_save = (\<lambda>i t v f. Inr ()),
      os_path_exists = (\<lambda>f. True),
      sf_write = (\<lambda>f d r. Inr ()),
      ffmpeg_run = (\<lambda>g. Inr ()),
      r2_upload = (\<lambda>f k. Inr (''https://r2.example/'' @ k))\<rparr>"

definition fresh_state :: state where
  "fresh_state =
     \<lparr>environ = Map.empty, rate_limiter = Map.empty, fs = {},
      WHISPER_MODEL = None, ALIGN_MODEL = None, DIARIZER = None, XTTS_MODEL = None\<rparr>"

definition request :: "string \<Rightarrow> string \<Rightarrow> item" where
  "request jid lang =
     \<lparr>job_id = jid, video_url = ''https://r2.example/temp/video.mp4'',
      target_lang = Some lang, client_id = Some (Some ''c1'')\<rparr>"

subsection \<open>A program logic for traces and returned responses\<close>

text \<open>
  \<open>sat Q R m\<close>: from every state, every call that \<open>m\<close> makes satisfies \<open>Q\<close>, and every
  response that \<open>m\<close> returns satisfies \<open>R\<close>.
\<close>

definition sat :: "(event \<Rightarrow> bool) \<Rightarrow> (response \<Rightarrow> bool) \<Rightarrow> 'a step \<Rightarrow> bool" where
  "sat Q R m \<longleftrightarrow>
     (\<forall>st. list_all Q (snd (snd (m st))) \<and> (\<forall>r. fst (m st) = Return r \<longrightarrow> R r))"

text \<open>
  The stems of a job: what the \<open>os.walk\<close> loop of step 3 finds, the vocal stem first.
\<close>

definition job_stems :: "world \<Rightarrow> item \<Rightarrow> (string \<times> string) option" where
  "job_stems w it = find_vocals (os_walk w (demucs_out (job_id it)))"

text \<open>
  How the synthesis and mixing calls of a trace relate to the job that made them: the
  cloning calls occur only for a target language of \<open>xtts_langs\<close>, with the job's vocal
  stem as reference and the target language; the gender classifier and the fallback
  synthesiser occur only for the other languages, the classifier on the job's vocal stem
  and the synthesiser with the voice selected for the classified gender; the encoder runs
  on the graph of the job's background stem, overwriting its output.
\<close>

definition job_event :: "world \<Rightarrow> item \<Rightarrow> event \<Rightarrow> bool" where
  "job_event w it e =
     (case e of
        LoadXtts \<Rightarrow> request_target_lang it \<in> set xtts_langs
      | XttsTts t ref l \<Rightarrow>
          request_target_lang it \<in> set xtts_langs
          \<and> map_option fst (job_stems w it) = Some ref \<and> l = request_target_lang it
      | DetectGender p \<Rightarrow>
          request_target_lang it \<notin> set xtts_langs \<and> map_option fst (job_stems w it) = Some p
      | EdgeTts t v f \<Rightarrow>
          request_target_lang it \<notin> set xtts_langs
          \<and> (\<exists>vocals bg g. job_stems w it = Some (vocals, bg)
                \<and> detect_gender w vocals = Inr g
                \<and> select_voice (request_target_lang it) g = Inr v)
      | FfmpegRun g b \<Rightarrow>
          (\<exists>vocals bg. job_stems w it = Some (vocals, bg) \<and> g = mix_graph (job_id it) bg) \<and> b
      | _ \<Rightarrow> True)"

text \<open>
  The voice of the fallback path: the classified gender of the vocal stem, looked up in
  the persona table.
\<close>

definition job_voice :: "world \<Rightarrow> string \<Rightarrow> string \<Rightarrow> exn + string" where
  "job_voice w lang vocals =
     (case detect_gender w vocals of Inl e \<Rightarrow> Inl e | Inr g \<Rightarrow> select_voice lang g)"

text \<open>
  A segment contributes no audio: its translated text is missing or empty, or its
  synthesis attempt fails (the cloning call raises; or, on the fallback path, the
  synthesis or the read-back of the temporary file raises).
\<close>

definition no_audio :: "world \<Rightarrow> string \<Rightarrow> string \<Rightarrow> string \<Rightarrow> nat \<times> segment \<Rightarrow> bool" where
  "no_audio w jid lang vocals = (\<lambda>(i, seg).
     case translated_text seg of
       None \<Rightarrow> True
     | Some txt \<Rightarrow>
         txt = []
         \<or> (if lang \<in> set xtts_langs then isl (xtts_tts w i txt vocals lang)
            else case job_voice w lang vocals of
                   Inl e \<Rightarrow> True
                 | Inr voice \<Rightarrow>
                     isl (edge_tts_save w i txt voice (temp_seg_file jid i))
                     \<or> isl (librosa_load w (temp_seg_file jid i) (Some 24000) None)))"

text \<open>
  The calls made before the synthesis step, and the events that are not a call of the
  gender classifier.
\<close>

definition early_event :: "event \<Rightarrow> bool" where
  "early_event e =
     (case e of
        LoadXtts \<Rightarrow> False
      | XttsTts t ref l \<Rightarrow> False
      | DetectGender p \<Rightarrow> False
      | EdgeTts t v f \<Rightarrow> False
      | LibrosaLoad f sr \<Rightarrow> False
      | OsRemove f \<Rightarrow> False
      | SfWrite f d sr \<Rightarrow> False
      | FfmpegRun g b \<Rightarrow> False
      | Upload f k \<Rightarrow> False
      | _ \<Rightarrow> True)"


subsection \<open>Reading the mixing graph\<close>

text \<open>
  Where the output of ffmpeg's \<open>amix\<close> filter ends, by its \<open>duration\<close> option, for
  two inputs of the given lengths (in samples). This is the meaning that ffmpeg documents
  for the option values \<open>longest\<close>, \<open>shortest\<close> and \<open>first\<close>; it is not code of this
  repository and serves only to read the graph that the mixing step builds.
\<close>

definition amix_end :: "string \<Rightarrow> nat \<Rightarrow> nat \<Rightarrow> nat option" where
  "amix_end d first_len second_len =
     (if d = ''longest'' then Some (max first_len second_len)
      else if d = ''shortest'' then Some (min first_len second_len)
      else if d = ''first'' then Some first_len
      else None)"

text \<open>
  The length of the audio stream of an output whose second stream is an \<open>amix\<close> of an
  input file and of a filtered input file, from the lengths of the files (the \<open>volume\<close>
  filter keeps the length).
\<close>

definition mixed_audio_length :: "(string \<Rightarrow> nat) \<Rightarrow> ffmpeg_output \<Rightarrow> nat option" where
  "mixed_audio_length len g =
     (case g of Output streams out okw \<Rightarrow>
        (case streams of
           [v, Filter ins name margs mkw] \<Rightarrow>
             (if name = ''amix'' then
                (case ins of
                   [Input a, Filter [Input b] vname vargs vkw] \<Rightarrow>
                     (case map_of mkw ''duration'' of
                        Some (AStr d) \<Rightarrow> amix_end d (len a) (len b)
                      | _ \<Rightarrow> None)
                 | _ \<Rightarrow> None)
              else None)
         | _ \<Rightarrow> None))"




section \<open>Properties of the rate limiter\<close>






section \<open>Unfolding the steps\<close>

lemmas step_defs = and_then_def pass_def ret_def lift_def call_def update_def effect_def emit_def
  load_once_def

lemmas stage_defs = dub_video_def entry_def runtime_config_def security_checks_def
  rate_limit_check_def setup_directories_def
  stages_1_5_def stages_1_4_def download_video_def extract_audio_def demucs_def
  discard_job_dir_def whisperx_def translation_def translate_segment_def
  stages_6_8_def synthesis_def xtts_cloning_def edge_tts_fallback_def write_dubbed_def
  mixing_def upload_def

lemmas limit_defs = check_daily_limit_def stored_timestamps_def valid_timestamps_def

section \<open>Rules of the program logic\<close>

lemma satI:
  assumes "\<And>st x st1 tr. m st = (x, st1, tr) \<Longrightarrow> list_all Q tr \<and> (\<forall>r. x = Return r \<longrightarrow> R r)"
  shows "sat Q R m"
  unfolding sat_def
proof (intro allI)
  fix st
  obtain x st1 tr where "m st = (x, st1, tr)" by (cases "m st") auto
  with assms[OF this] show "list_all Q (snd (snd (m st))) \<and> (\<forall>r. fst (m st) = Return r \<longrightarrow> R r)"
    by simp
qed

lemma satD:
  assumes "sat Q R m" and "m st = (x, st1, tr)"
  shows "list_all Q tr" and "x = Return r \<Longrightarrow> R r"
  using assms unfolding sat_def by (metis snd_conv, metis fst_conv)

lemma sat_and_then:
  assumes m: "sat Q R m"
    and f: "\<And>a st st1 tr. m st = (Next a, st1, tr) \<Longrightarrow> sat Q R (f a)"
  shows "sat Q R (and_then m f)"
proof (rule satI)
  fix st x st2 tr
  assume run: "and_then m f st = (x, st2, tr)"
  obtain y st1 tr1 where ms: "m st = (y, st1, tr1)" by (cases "m st") auto
  show "list_all Q tr \<and> (\<forall>r. x = Return r \<longrightarrow> R r)"
  proof (cases y)
    case (Raise e)
    with run ms satD[OF m ms] show ?thesis by (auto simp: and_then_def)
  next
    case (Return r')
    with run ms satD[OF m ms] show ?thesis by (auto simp: and_then_def)
  next
    case (Next a)
    obtain z st3 tr3 where fs: "f a st1 = (z, st3, tr3)" by (cases "f a st1") auto
    have "sat Q R (f a)" using f ms Next by simp
    from satD[OF this fs] satD(1)[OF m ms] run ms Next fs show ?thesis
      by (auto simp: and_then_def)
  qed
qed

lemma sat_pass: "sat Q R (pass v)"
  by (simp add: sat_def pass_def)

lemma sat_ret: "R r \<Longrightarrow> sat Q R (ret r)"
  by (simp add: sat_def ret_def)

lemma sat_lift: "sat Q R (lift x)"
  by (simp add: sat_def lift_def split: sum.splits)

lemma sat_call: "Q ev \<Longrightarrow> sat Q R (call ev x)"
  by (simp add: sat_def call_def split: sum.splits)

lemma sat_update: "sat Q R (update g)"
  by (simp add: sat_def update_def)

lemma sat_effect: "Q ev \<Longrightarrow> sat Q R (effect ev g)"
  by (simp add: sat_def effect_def)

lemma sat_emit: "list_all Q evs \<Longrightarrow> sat Q R (emit evs)"
  by (simp add: sat_def emit_def)

lemma sat_load_once: "sat Q R loader \<Longrightarrow> sat Q R (load_once c s loader)"
proof -
  assume l: "sat Q R loader"
  have "sat Q R (and_then loader (\<lambda>v. and_then (update (s v)) (\<lambda>_. pass v)))"
    by (intro sat_and_then l sat_update sat_pass)
  then show ?thesis
    by (auto simp: sat_def load_once_def pass_def split: option.splits)
qed

lemma sat_rate_limit_check:
  "Q (CheckDailyLimit cid) \<Longrightarrow> R (Error ''Daily limit reached (3/3). Please try again in 24 hours.'')
   \<Longrightarrow> sat Q R (rate_limit_check w cid)"
  by (simp add: sat_def rate_limit_check_def split: prod.splits)

lemma sat_entry:
  assumes "Q (CheckDailyLimit (request_client_id it))" "Q (MakeDirs (job_dir (job_id it)))"
   "R (Error ''Daily limit reached (3/3). Please try again in 24 hours.'')"
   "R (Error ''Invalid job_id format. Security Block.'')"
   "R (Error ''Invalid URL scheme.'')"
  shows "sat Q R (entry w it)"
  unfolding entry_def runtime_config_def security_checks_def setup_directories_def
  using assms
  by (intro sat_and_then sat_update sat_rate_limit_check sat_effect) (auto intro: sat_ret sat_pass)


section \<open>The stages keep the job's calls in line\<close>

lemma sat_mono:
  assumes "sat Q R m" and "\<And>r. R r \<Longrightarrow> R' r"
  shows "sat Q R' m"
  using assms unfolding sat_def by blast

lemma and_then_NextD:
  assumes "and_then m f st = (Next b, st2, tr)"
  shows "\<exists>a st1 tr1 tr2. m st = (Next a, st1, tr1) \<and> f a st1 = (Next b, st2, tr2) \<and> tr = tr1 @ tr2"
proof -
  obtain y st1 tr1 where ms: "m st = (y, st1, tr1)" by (cases "m st") auto
  show ?thesis
  proof (cases y)
    case (Next a)
    obtain z st3 tr3 where fs: "f a st1 = (z, st3, tr3)" by (cases "f a st1") auto
    with assms ms Next show ?thesis by (auto simp: and_then_def)
  qed (use assms ms in \<open>auto simp: and_then_def\<close>)
qed

lemma sat_events_mono:
  assumes "sat Q R m" and "\<And>e. Q e \<Longrightarrow> Q' e"
  shows "sat Q' R m"
  using assms unfolding sat_def by (auto simp: list_all_iff)

lemma sat_download: "sat early_event R (download_video w jid url)"
  unfolding download_video_def by (rule sat_call) (simp add: early_event_def)

lemma sat_extract: "sat early_event R (extract_audio w jid)"
  unfolding extract_audio_def by (rule sat_call) (simp add: early_event_def)

lemma sat_discard: "Q (RmTree (job_dir jid)) \<Longrightarrow> sat Q R (discard_job_dir jid)"
  unfolding discard_job_dir_def by (rule sat_effect)

lemma sat_demucs: "R (Error ''Demucs failed'') \<Longrightarrow> sat early_event R (demucs w jid)"
  unfolding demucs_def
  by (intro sat_and_then sat_call)
     (auto simp: early_event_def intro!: sat_and_then sat_discard sat_ret sat_pass
           split: option.splits)

lemma sat_whisperx: "sat early_event R (whisperx w vocals)"
  unfolding whisperx_def
  by (intro sat_and_then sat_load_once sat_call sat_pass)
     (auto simp: early_event_def intro!: sat_and_then sat_load_once sat_call sat_pass)

lemma sat_translation: "sat early_event R (translation w lang segs)"
  unfolding translation_def
  by (intro sat_and_then sat_call sat_emit sat_pass)
     (auto simp: early_event_def list_all_iff)

lemma sat_stages_1_4: "R (Error ''Demucs failed'') \<Longrightarrow> sat early_event R (stages_1_4 w it)"
  unfolding stages_1_4_def
  by (intro sat_and_then sat_download sat_extract sat_demucs)
     (auto intro!: sat_and_then sat_whisperx sat_pass)

lemma sat_early_stages_1_5:
  "R (Error ''Demucs failed'') \<Longrightarrow> sat early_event R (stages_1_5 w it)"
  unfolding stages_1_5_def
  by (intro sat_and_then sat_stages_1_4)
     (auto intro!: sat_and_then sat_translation sat_pass)

lemma early_event_job_event: "early_event e \<Longrightarrow> job_event w it e"
  by (cases e) (simp_all add: early_event_def job_event_def)


lemma sat_stages_1_5: "R (Error ''Demucs failed'') \<Longrightarrow> sat (job_event w it) R (stages_1_5 w it)"
  by (rule sat_events_mono[OF sat_early_stages_1_5]) (auto intro: early_event_job_event)


lemma demucs_Next:
  assumes "demucs w jid st = (Next (vocals, bg), st1, tr)"
  shows "find_vocals (os_walk w (demucs_out jid)) = Some (vocals, bg)"
proof -
  from and_then_NextD[OF assms[unfolded demucs_def]] obtain st0 tr2 where
    "(case find_vocals (os_walk w (demucs_out jid)) of
       None \<Rightarrow> and_then (discard_job_dir jid) (\<lambda>_. ret (Error ''Demucs failed''))
     | Some (vocals, bg) \<Rightarrow> pass (vocals, bg)) st0 = (Next (vocals, bg), st1, tr2)"
    by blast
  then show ?thesis
    by (auto simp: pass_def and_then_def discard_job_dir_def effect_def ret_def split: option.splits)
qed

lemma stages_1_4_Next:
  assumes "stages_1_4 w it st = (Next (vocals, bg, segs), st1, tr)"
  shows "job_stems w it = Some (vocals, bg)"
proof -
  from and_then_NextD[OF assms[unfolded stages_1_4_def]] obtain sta tra where
    a: "and_then (extract_audio w (job_id it)) (\<lambda>_.
     and_then (demucs w (job_id it)) (\<lambda>(vocals, bg).
     and_then (whisperx w vocals) (\<lambda>segments.
     pass (vocals, bg, segments)))) sta = (Next (vocals, bg, segs), st1, tra)"
    by blast
  from and_then_NextD[OF a] obtain stb trb where
    b: "and_then (demucs w (job_id it)) (\<lambda>(vocals, bg).
     and_then (whisperx w vocals) (\<lambda>segments.
     pass (vocals, bg, segments))) stb = (Next (vocals, bg, segs), st1, trb)"
    by blast
  from and_then_NextD[OF b] obtain v b' stc trc trd where
    c: "demucs w (job_id it) stb = (Next (v, b'), stc, trc)"
    and d: "and_then (whisperx w v) (\<lambda>segments. pass (v, b', segments)) stc
              = (Next (vocals, bg, segs), st1, trd)"
    by auto
  from and_then_NextD[OF d] have "v = vocals \<and> b' = bg"
    by (auto simp: pass_def)
  with demucs_Next[OF c] show ?thesis by (simp add: job_stems_def)
qed

lemma stages_1_5_Next:
  assumes "stages_1_5 w it st = (Next (vocals, bg, segs), st1, tr)"
  shows "job_stems w it = Some (vocals, bg)"
proof -
  from and_then_NextD[OF assms[unfolded stages_1_5_def]] obtain v b' s sta tra trb where
    a: "stages_1_4 w it st = (Next (v, b', s), sta, tra)"
    and b: "and_then (translation w (request_target_lang it) s) (\<lambda>segments.
     pass (v, b', segments)) sta = (Next (vocals, bg, segs), st1, trb)"
    by auto
  from and_then_NextD[OF b] have "v = vocals \<and> b' = bg"
    by (auto simp: pass_def)
  with stages_1_4_Next[OF a] show ?thesis by simp
qed

lemma call_Next: "call ev x st = (Next a, st1, tr) \<Longrightarrow> x = Inr a"
  by (auto simp: call_def split: sum.splits)

lemma lift_Next: "lift x st = (Next a, st1, tr) \<Longrightarrow> x = Inr a"
  by (auto simp: lift_def split: sum.splits)

lemma xtts_loop_events:
  assumes "request_target_lang it \<in> set xtts_langs"
    and "map_option fst (job_stems w it) = Some vocals"
  shows "list_all (job_event w it) (snd (xtts_loop w vocals (request_target_lang it) ss c))"
  using assms
  by (induction w vocals "request_target_lang it" ss c rule: xtts_loop.induct)
     (auto simp: job_event_def split_beta split: option.splits sum.splits)

lemma edge_loop_events:
  assumes "request_target_lang it \<notin> set xtts_langs"
    and "job_stems w it = Some (vocals, bg)"
    and "detect_gender w vocals = Inr g"
    and "select_voice (request_target_lang it) g = Inr voice"
  shows "list_all (job_event w it) (snd (edge_loop w jid voice ss c))"
  using assms
  by (induction w jid voice ss c rule: edge_loop.induct)
     (auto simp: job_event_def split_beta split: option.splits sum.splits)

lemma sat_write_dubbed: "sat (job_event w it) R (write_dubbed w jid c)"
  unfolding write_dubbed_def by (rule sat_call) (simp add: job_event_def)

lemma sat_xtts_cloning:
  assumes "request_target_lang it \<in> set xtts_langs"
    and "map_option fst (job_stems w it) = Some vocals"
  shows "sat (job_event w it) R (xtts_cloning w jid (request_target_lang it) vocals segs)"
proof -
  obtain c tr where l: "xtts_loop w vocals (request_target_lang it) (enumerate 0 segs) [] = (c, tr)"
    by (cases "xtts_loop w vocals (request_target_lang it) (enumerate 0 segs) []") auto
  have "list_all (job_event w it) tr"
    using xtts_loop_events[OF assms, of "enumerate 0 segs" "[]"] l by simp
  then show ?thesis
    unfolding xtts_cloning_def l using assms(1)
    by (auto intro!: sat_and_then sat_load_once sat_call sat_emit sat_write_dubbed
             simp: job_event_def)
qed

lemma sat_edge_tts_fallback:
  assumes "request_target_lang it \<notin> set xtts_langs"
    and "job_stems w it = Some (vocals, bg)"
  shows "sat (job_event w it) R (edge_tts_fallback w jid (request_target_lang it) vocals segs)"
  unfolding edge_tts_fallback_def
proof (intro sat_and_then sat_call sat_lift)
  show "job_event w it (DetectGender vocals)"
    using assms by (simp add: job_event_def)
next
  fix g voice st st1 tr sta st1a tra
  assume g: "call (DetectGender vocals) (detect_gender w vocals) st = (Next g, st1, tr)"
    and v: "lift (select_voice (request_target_lang it) g) sta = (Next voice, st1a, tra)"
  obtain c tr' where l: "edge_loop w jid voice (enumerate 0 segs) [] = (c, tr')"
    by (cases "edge_loop w jid voice (enumerate 0 segs) []") auto
  have "list_all (job_event w it) tr'"
    using edge_loop_events[OF assms call_Next[OF g] lift_Next[OF v], of jid "enumerate 0 segs" "[]"] l
    by simp
  then show "sat (job_event w it) R
      (case edge_loop w jid voice (enumerate 0 segs) [] of
         (combined, tr) \<Rightarrow> and_then (emit tr) (\<lambda>_. write_dubbed w jid combined))"
    unfolding l by (auto intro!: sat_and_then sat_emit sat_write_dubbed)
qed

lemma sat_synthesis:
  assumes "job_stems w it = Some (vocals, bg)"
  shows "sat (job_event w it) R (synthesis w jid (request_target_lang it) vocals segs)"
  unfolding synthesis_def using assms
  by (auto intro!: sat_xtts_cloning sat_edge_tts_fallback)

lemma sat_mixing:
  assumes "job_stems w it = Some (vocals, bg)" and "R (Error ''Mixing failed'')"
  shows "sat (job_event w it) R (mixing w (job_id it) bg)"
  unfolding mixing_def using assms
  by (auto intro!: sat_and_then sat_emit sat_discard sat_ret sat_call simp: job_event_def
           split: sum.splits exn.splits)

lemma sat_upload:
  assumes "\<And>url. R (Success url)"
  shows "sat (job_event w it) R (upload w jid)"
  unfolding upload_def using assms
  by (auto intro!: sat_and_then sat_discard sat_ret sat_call simp: job_event_def)

lemma sat_stages_6_8:
  assumes "job_stems w it = Some (vocals, bg)" and "R (Error ''Mixing failed'')"
    and "\<And>url. R (Success url)"
  shows "sat (job_event w it) R (stages_6_8 w it vocals bg segs)"
  unfolding stages_6_8_def
  by (intro sat_and_then sat_synthesis[OF assms(1)] sat_mixing[where vocals = vocals]
            sat_upload assms)

text \<open>The responses that the stages after the security checks can return.\<close>

lemma sat_after_entry:
  "sat (job_event w it)
       (\<lambda>r. r = Error ''Demucs failed'' \<or> r = Error ''Mixing failed'' \<or> (\<exists>url. r = Success url))
       (and_then (stages_1_5 w it) (\<lambda>(vocals, bg, segments). stages_6_8 w it vocals bg segments))"
  by (intro sat_and_then sat_stages_1_5) (auto intro!: sat_stages_6_8 dest: stages_1_5_Next)

lemma sat_dub_video:
  "sat (job_event w it)
       (\<lambda>r. r = Error ''Invalid job_id format. Security Block.''
           \<or> r = Error ''Invalid URL scheme.''
           \<or> r = Error ''Daily limit reached (3/3). Please try again in 24 hours.''
           \<or> r = Error ''Demucs failed'' \<or> r = Error ''Mixing failed''
           \<or> (\<exists>url. r = Success url))
       (dub_video w it)"
  unfolding dub_video_def
  by (intro sat_and_then sat_entry sat_mono[OF sat_after_entry]) (auto simp: job_event_def)

section \<open>Running the pipeline symbolically\<close>

lemma set_runtime_config_sel [simp]:
  "rate_limiter (set_runtime_config st) = rate_limiter st"
  "fs (set_runtime_config st) = fs st"
  "WHISPER_MODEL (set_runtime_config st) = WHISPER_MODEL st"
  "ALIGN_MODEL (set_runtime_config st) = ALIGN_MODEL st"
  "DIARIZER (set_runtime_config st) = DIARIZER st"
  "XTTS_MODEL (set_runtime_config st) = XTTS_MODEL st"
  by (simp_all add: set_runtime_config_def)

lemma entry_invalid_job_id:
  assumes "\<not> re_match_job_id (job_id it)"
  shows "entry w it st
    = (Return (Error ''Invalid job_id format. Security Block.''), set_runtime_config st, [])"
  using assms
  by (simp add: entry_def and_then_def runtime_config_def update_def security_checks_def ret_def)

lemma entry_invalid_url:
  assumes "re_match_job_id (job_id it)" and "\<not> startswith_http (video_url it)"
  shows "entry w it st = (Return (Error ''Invalid URL scheme.''), set_runtime_config st, [])"
  using assms
  by (simp add: entry_def and_then_def runtime_config_def update_def security_checks_def ret_def)

lemma entry_valid:
  assumes "re_match_job_id (job_id it)" and "startswith_http (video_url it)"
  shows "entry w it st =
    (case check_daily_limit (request_client_id it) (time_time w) (rate_limiter st) of
       (allowed, db) \<Rightarrow>
         if allowed
         then (Next (),
               (set_runtime_config st)\<lparr>rate_limiter := db,
                                       fs := insert (job_dir (job_id it)) (fs st)\<rparr>,
               [CheckDailyLimit (request_client_id it), MakeDirs (job_dir (job_id it))])
         else (Return (Error ''Daily limit reached (3/3). Please try again in 24 hours.''),
               (set_runtime_config st)\<lparr>rate_limiter := db\<rparr>,
               [CheckDailyLimit (request_client_id it)]))"
  using assms
  by (simp add: entry_def and_then_def runtime_config_def update_def security_checks_def
        pass_def rate_limit_check_def setup_directories_def effect_def split: prod.splits)

lemma and_then_Return:
  "m st = (Return r, st1, tr) \<Longrightarrow> and_then m f st = (Return r, st1, tr)"
  by (simp add: and_then_def)

lemma and_then_Raise:
  "m st = (Raise e, st1, tr) \<Longrightarrow> and_then m f st = (Raise e, st1, tr)"
  by (simp add: and_then_def)

lemma and_then_Next:
  "m st = (Next a, st1, tr1) \<Longrightarrow>
   and_then m f st = (case f a st1 of (r, st2, tr2) \<Rightarrow> (r, st2, tr1 @ tr2))"
  by (simp add: and_then_def)

lemma dub_video_reaches_synthesis:
  assumes "entry w it st = (Next (), st1, tr1)"
    and "stages_1_5 w it st1 = (Next (vocals, bg, segs), st2, tr2)"
  shows "dub_video w it st =
    (case stages_6_8 w it vocals bg segs st2 of (r, st3, tr3) \<Rightarrow> (r, st3, tr1 @ tr2 @ tr3))"
  by (simp add: dub_video_def and_then_def assms split: prod.splits)

lemma dub_video_stops_at_entry:
  assumes "entry w it st = (Return r, st1, tr1)"
  shows "dub_video w it st = (Return r, st1, tr1)"
  by (simp add: dub_video_def and_then_def assms)

lemma dub_video_raises_in_stages_1_5:
  assumes "entry w it st = (Next (), st1, tr1)"
    and "stages_1_5 w it st1 = (Raise e, st2, tr2)"
  shows "dub_video w it st = (Raise e, st2, tr1 @ tr2)"
  by (simp add: dub_video_def and_then_def assms)

lemma dub_video_returns_in_stages_1_5:
  assumes "entry w it st = (Next (), st1, tr1)"
    and "stages_1_5 w it st1 = (Return r, st2, tr2)"
  shows "dub_video w it st = (Return r, st2, tr1 @ tr2)"
  by (simp add: dub_video_def and_then_def assms)

lemma scheme_of_http:
  assumes "startswith_http url"
  shows "scheme url = ''http'' \<or> scheme url = ''https''"
  using assms by (auto simp: startswith_http_def scheme_def prefix_def)

lemma not_re_match_job_id:
  assumes "jid = [] \<or> (\<not> list_all safe_char jid \<and> last jid \<noteq> CHR 0x0A)"
  shows "\<not> re_match_job_id jid"
  using assms by (auto simp: re_match_job_id_def all_safe_def)

lemma dub_video_valid_not_validation_error:
  assumes "re_match_job_id (job_id it)" and "startswith_http (video_url it)"
  shows "fst (dub_video w it st) \<noteq> Return (Error ''Invalid job_id format. Security Block.'')
       \<and> fst (dub_video w it st) \<noteq> Return (Error ''Invalid URL scheme.'')"
proof -
  obtain allowed db where c:
    "check_daily_limit (request_client_id it) (time_time w) (rate_limiter st) = (allowed, db)"
    by (cases "check_daily_limit (request_client_id it) (time_time w) (rate_limiter st)") auto
  show ?thesis
  proof (cases allowed)
    case False
    then show ?thesis
      using dub_video_stops_at_entry[of w it st] entry_valid[OF assms, of w st] c by simp
  next
    case True
    let ?rest = "and_then (stages_1_5 w it)
      (\<lambda>(vocals, bg, segments). stages_6_8 w it vocals bg segments)"
    from True obtain st1 tr1 where e: "entry w it st = (Next (), st1, tr1)"
      using entry_valid[OF assms, of w st] c by simp
    obtain x st2 tr2 where r: "?rest st1 = (x, st2, tr2)" by (cases "?rest st1") auto
    have d: "dub_video w it st = (x, st2, tr1 @ tr2)"
      by (simp add: dub_video_def and_then_Next[where m = "entry w it"] e r)
    from satD(2)[OF sat_after_entry r] show ?thesis
      unfolding d by auto
  qed
qed

section \<open>The concrete job\<close>

lemma good_world_sel [simp]:
  "librosa_load good_world = (\<lambda>p sr d. Inr [1, 2])"
  "librosa_pyin good_world = (\<lambda>y lo hi. Inr [Some 200, None, Some 220])"
  "time_time good_world = 1700000000"
  "requests_get good_world = (\<lambda>url. Inr ())"
  "ffmpeg_extract good_world = (\<lambda>v a. Inr ())"
  "run_demucs good_world = (\<lambda>out a. Inr ())"
  "os_walk good_world = (\<lambda>top. [(top, []), (top @ ''/htdemucs'', []),
                          (top @ ''/htdemucs/audio'', [''no_vocals.wav'', ''vocals.wav''])])"
  "whisperx_load_model good_world = Inr ()"
  "whisper_transcribe good_world = (\<lambda>v. Inr (''en'', [hello, goodbye]))"
  "whisperx_load_align_model good_world = (\<lambda>l. Inr ())"
  "whisperx_align good_world = (\<lambda>m segs. Inr segs)"
  "load_diarizer good_world = Inr ()"
  "diarize_assign good_world = (\<lambda>segs. Inr segs)"
  "google_translator good_world = (\<lambda>l. Inr ())"
  "translator_translate good_world =
        (\<lambda>i t. if i = 0 then Inr ''namaste'' else Inl (Exception ''RequestError''))"
  "load_xtts good_world = Inr ()"
  "xtts_tts good_world = (\<lambda>i t v l. Inr [3, 4])"
  "edge_tts_save good_world = (\<lambda>i t v f. Inr ())"
  "os_path_exists good_world = (\<lambda>f. True)"
  "sf_write good_world = (\<lambda>f d r. Inr ())"
  "ffmpeg_run good_world = (\<lambda>g. Inr ())"
  "r2_upload good_world = (\<lambda>f k. Inr (''https://r2.example/'' @ k))"
  by (simp_all add: good_world_def)

lemma request_sel [simp]:
  "job_id (request jid lang) = jid"
  "video_url (request jid lang) = ''https://r2.example/temp/video.mp4''"
  "target_lang (request jid lang) = Some lang"
  "client_id (request jid lang) = Some (Some ''c1'')"
  by (simp_all add: request_def)

lemma fresh_state_sel [simp]:
  "environ fresh_state = Map.empty"
  "rate_limiter fresh_state = Map.empty"
  "fs fresh_state = {}"
  "WHISPER_MODEL fresh_state = None"
  "ALIGN_MODEL fresh_state = None"
  "DIARIZER fresh_state = None"
  "XTTS_MODEL fresh_state = None"
  by (simp_all add: fresh_state_def)

lemma job_1_ok [simp]: "re_match_job_id ''job_1''"
  by (simp add: re_match_job_id_def all_safe_def safe_char_def)

lemma request_url_ok [simp]: "startswith_http ''https://r2.example/temp/video.mp4''"
  by (simp add: startswith_http_def)

lemma c1_admitted [simp]:
  "check_daily_limit (Some ''c1'') now Map.empty = (True, [''c1'' \<mapsto> [now]])"
  by (simp add: check_daily_limit_def stored_timestamps_def valid_timestamps_def)

lemma request_client [simp]: "request_client_id (request jid lang) = Some ''c1''"
  by (simp add: request_client_id_def)

lemma request_lang [simp]: "request_target_lang (request jid lang) = lang"
  by (simp add: request_target_lang_def)

lemma segment_sel [simp]:
  "seg_text hello = ''hello''" "seg_text goodbye = ''goodbye''"
  "translated_text hello = None" "translated_text goodbye = None"
  by (simp_all add: hello_def goodbye_def)

lemma job_2_ok [simp]: "re_match_job_id ''job_2''"
  by (simp add: re_match_job_id_def all_safe_def safe_char_def)

lemma job_dir_in_rmtree [simp]: "rmtree p {p} = {}"
  by (auto simp: rmtree_def)

lemma entry_job_1:
  assumes "time_time w = 1700000000"
  shows "fst (entry w (request ''job_1'' lang) fresh_state) = Next ()"
  using assms by (simp add: entry_valid)

lemma stems_job_1 [simp]:
  "find_vocals (os_walk good_world (demucs_out ''job_1''))
     = Some (demucs_out ''job_1'' @ ''/htdemucs/audio/vocals.wav'',
             demucs_out ''job_1'' @ ''/htdemucs/audio/no_vocals.wav'')"
  by (simp add: os_path_join_def)

text \<open>In any state, steps 1 to 4 of the concrete job give its stems and its transcript.\<close>

lemma stages_1_4_job_1:
  assumes "requests_get w = requests_get good_world"
    and "ffmpeg_extract w = ffmpeg_extract good_world"
    and "run_demucs w = run_demucs good_world"
    and "os_walk w = os_walk good_world"
    and "whisperx_load_model w = Inr ()"
    and "whisper_transcribe w = whisper_transcribe good_world"
    and "whisperx_load_align_model w = whisperx_load_align_model good_world"
    and "whisperx_align w = whisperx_align good_world"
    and "load_diarizer w = Inr ()"
    and "diarize_assign w = diarize_assign good_world"
  shows "fst (stages_1_4 w (request ''job_1'' lang) st)
     = Next (demucs_out ''job_1'' @ ''/htdemucs/audio/vocals.wav'',
             demucs_out ''job_1'' @ ''/htdemucs/audio/no_vocals.wav'',
             [hello, goodbye])"
  by (simp add: assms stages_1_4_def download_video_def extract_audio_def demucs_def whisperx_def
        step_defs os_path_join_def split: option.splits)

section \<open>Validation at the entry of the pipeline\<close>

text \<open>
  The pattern accepts a job identifier that ends in a newline after safe characters,
  because \<open>$\<close> also matches before a final newline.
\<close>

lemma re_match_job_id_trailing_newline: "re_match_job_id (''job_1'' @ [CHR 0x0A])"
  by (simp add: re_match_job_id_def all_safe_def safe_char_def)

text \<open>
  Claim C4, as stated, fails: ``\<open>dub_video\<close> returns an error result if and only if
  validation fails''. With a valid job identifier and an \<open>https\<close> locator, a separator
  that leaves no \<open>vocals.wav\<close> makes \<open>dub_video\<close> return the error result
  \<open>Demucs failed\<close>.
\<close>

theorem dub_video_error_after_valid_input:
  "re_match_job_id (job_id (request ''job_1'' ''hi''))
   \<and> startswith_http (video_url (request ''job_1'' ''hi''))
   \<and> fst (dub_video (good_world\<lparr>os_walk := (\<lambda>top. [])\<rparr>) (request ''job_1'' ''hi'') fresh_state)
       = Return (Error ''Demucs failed'')"
proof -
  let ?w = "good_world\<lparr>os_walk := (\<lambda>top. [])\<rparr>"
  let ?it = "request ''job_1'' ''hi''"
  obtain st1 tr1 where e: "entry ?w ?it fresh_state = (Next (), st1, tr1)"
    using entry_job_1[of ?w "''hi''"] by (cases "entry ?w ?it fresh_state") auto
  have "fst (stages_1_5 ?w ?it st1) = Return (Error ''Demucs failed'')"
    by (simp add: stages_1_5_def stages_1_4_def and_then_def download_video_def call_def
          extract_audio_def demucs_def discard_job_dir_def effect_def ret_def)
  then obtain st2 tr2 where
    "stages_1_5 ?w ?it st1 = (Return (Error ''Demucs failed''), st2, tr2)"
    by (cases "stages_1_5 ?w ?it st1") auto
  from dub_video_returns_in_stages_1_5[OF e this] show ?thesis
    by simp
qed

text \<open>
  Claim C4, amended. \<open>dub_video\<close> returns one of the two validation error results if and
  only if validation fails. It returns \<open>Invalid job_id format\<close> for every job identifier
  that is empty, or that contains a character outside \<open>[A-Za-z0-9_-]\<close> and does not end
  in a newline; a locator whose scheme is neither \<open>http\<close> nor \<open>https\<close> does not pass the
  check, and \<open>Invalid URL scheme\<close> is returned for it when the job identifier passed.
  In both cases no call has been made (the trace is empty) and the state is the initial
  one with only \<open>os.environ\<close> set: the rate-limit store, the directories and the model
  cache are untouched.
\<close>

theorem validation_at_entry:
  "(fst (dub_video w it st) = Return (Error ''Invalid job_id format. Security Block.'')
      \<or> fst (dub_video w it st) = Return (Error ''Invalid URL scheme.'')
    \<longleftrightarrow> \<not> (re_match_job_id (job_id it) \<and> startswith_http (video_url it)))
   \<and> (job_id it = [] \<or> (\<not> list_all safe_char (job_id it) \<and> last (job_id it) \<noteq> CHR 0x0A) \<longrightarrow>
        dub_video w it st
          = (Return (Error ''Invalid job_id format. Security Block.''), set_runtime_config st, []))
   \<and> (scheme (video_url it) \<noteq> ''http'' \<and> scheme (video_url it) \<noteq> ''https'' \<longrightarrow>
        \<not> startswith_http (video_url it)
        \<and> (re_match_job_id (job_id it) \<longrightarrow>
             dub_video w it st = (Return (Error ''Invalid URL scheme.''), set_runtime_config st, [])))
   \<and> (\<not> (re_match_job_id (job_id it) \<and> startswith_http (video_url it)) \<longrightarrow>
        snd (dub_video w it st) = (set_runtime_config st, [])
        \<and> rate_limiter (set_runtime_config st) = rate_limiter st
        \<and> fs (set_runtime_config st) = fs st
        \<and> WHISPER_MODEL (set_runtime_config st) = WHISPER_MODEL st
        \<and> ALIGN_MODEL (set_runtime_config st) = ALIGN_MODEL st
        \<and> DIARIZER (set_runtime_config st) = DIARIZER st
        \<and> XTTS_MODEL (set_runtime_config st) = XTTS_MODEL st)"
proof -
  have bad_id: "dub_video w it st
      = (Return (Error ''Invalid job_id format. Security Block.''), set_runtime_config st, [])"
    if "\<not> re_match_job_id (job_id it)"
    using that by (intro dub_video_stops_at_entry entry_invalid_job_id)
  have bad_url: "dub_video w it st
      = (Return (Error ''Invalid URL scheme.''), set_runtime_config st, [])"
    if "re_match_job_id (job_id it)" "\<not> startswith_http (video_url it)"
    using that by (intro dub_video_stops_at_entry entry_invalid_url)
  have a: "fst (dub_video w it st) = Return (Error ''Invalid job_id format. Security Block.'')
      \<or> fst (dub_video w it st) = Return (Error ''Invalid URL scheme.'')
    \<longleftrightarrow> \<not> (re_match_job_id (job_id it) \<and> startswith_http (video_url it))"
    using bad_id bad_url dub_video_valid_not_validation_error[of it w st] by fastforce
  have b: "job_id it = [] \<or> (\<not> list_all safe_char (job_id it) \<and> last (job_id it) \<noteq> CHR 0x0A) \<longrightarrow>
        dub_video w it st
          = (Return (Error ''Invalid job_id format. Security Block.''), set_runtime_config st, [])"
    using bad_id not_re_match_job_id[of "job_id it"] by blast
  have c: "scheme (video_url it) \<noteq> ''http'' \<and> scheme (video_url it) \<noteq> ''https'' \<longrightarrow>
        \<not> startswith_http (video_url it)
        \<and> (re_match_job_id (job_id it) \<longrightarrow>
             dub_video w it st = (Return (Error ''Invalid URL scheme.''), set_runtime_config st, []))"
    using bad_url scheme_of_http[of "video_url it"] by blast
  have d: "\<not> (re_match_job_id (job_id it) \<and> startswith_http (video_url it)) \<longrightarrow>
        snd (dub_video w it st) = (set_runtime_config st, [])"
    using bad_id bad_url by fastforce
  show ?thesis
    using a b c d by simp
qed

theorem validation_at_entry_witness:
  "\<not> list_all safe_char ''../etc'' \<and> last ''../etc'' \<noteq> CHR 0x0A
   \<and> dub_video good_world (request ''../etc'' ''hi'') fresh_state
       = (Return (Error ''Invalid job_id format. Security Block.''),
          set_runtime_config fresh_state, [])
   \<and> scheme ''ftp://host/v.mp4'' = ''ftp''
   \<and> re_match_job_id ''job_1''
   \<and> dub_video good_world ((request ''job_1'' ''hi'')\<lparr>video_url := ''ftp://host/v.mp4''\<rparr>)
         fresh_state
       = (Return (Error ''Invalid URL scheme.''), set_runtime_config fresh_state, [])
   \<and> rate_limiter (set_runtime_config fresh_state) = Map.empty
   \<and> fs (set_runtime_config fresh_state) = {}"
  using validation_at_entry[of good_world "request ''../etc'' ''hi''" fresh_state]
        validation_at_entry[of good_world
          "(request ''job_1'' ''hi'')\<lparr>video_url := ''ftp://host/v.mp4''\<rparr>" fresh_state]
  by (simp add: safe_char_def scheme_def)

section \<open>Cleanup of the job directory\<close>

text \<open>
  Claim C1 fails on the code. The job directory is removed on the three paths that call
  \<open>shutil.rmtree\<close> (no vocal stem, \<open>ffmpeg.Error\<close> in the mixing step, success), but there
  is no \<open>try\<close>/\<open>finally\<close> around the pipeline: when the download raises (here an HTTP
  error), \<open>dub_video\<close> ends with that exception after \<open>os.makedirs\<close>, no \<open>rmtree\<close> has
  been called and the job directory still exists.
\<close>

theorem job_dir_left_after_failed_download:
  "(case dub_video (good_world\<lparr>requests_get := (\<lambda>url. Inl (Exception ''HTTPError''))\<rparr>)
          (request ''job_1'' ''hi'') fresh_state of
      (r, st', tr) \<Rightarrow>
        r = Raise (Exception ''HTTPError'')
        \<and> job_dir ''job_1'' \<in> fs st'
        \<and> tr = [CheckDailyLimit (Some ''c1''), MakeDirs (job_dir ''job_1''),
                 RequestsGet ''https://r2.example/temp/video.mp4'' (video_path ''job_1'')])"
  by (simp add: stage_defs step_defs limit_defs)

section \<open>The cached alignment model\<close>

text \<open>
  Claim C9 fails on the code. \<open>ALIGN_MODEL\<close> is one module-level variable, loaded only
  while it is \<open>None\<close>. Two jobs run in the same process: the first detects English and
  loads the English alignment model; the second detects French, yet no French model is
  loaded and its segments are aligned with the cached English model.
\<close>

theorem second_job_aligned_with_cached_model:
  "(case dub_video good_world (request ''job_1'' ''hi'') fresh_state of
      (r1, st1, tr1) \<Rightarrow>
        (case dub_video (good_world\<lparr>whisper_transcribe := (\<lambda>v. Inr (''fr'', [hello]))\<rparr>)
                (request ''job_2'' ''hi'') st1 of
           (r2, st2, tr2) \<Rightarrow>
             whisper_transcribe (good_world\<lparr>whisper_transcribe := (\<lambda>v. Inr (''fr'', [hello]))\<rparr>)
                 (demucs_out ''job_2'' @ ''/htdemucs/audio/vocals.wav'') = Inr (''fr'', [hello])
             \<and> r1 = Return (Success ''https://r2.example/dubbed/job_1.mp4'')
             \<and> r2 = Return (Success ''https://r2.example/dubbed/job_2.mp4'')
             \<and> align_calls tr1 = [''en'']
             \<and> ALIGN_MODEL st1 = Some ''en''
             \<and> align_calls tr2 = [''en'']
             \<and> LoadAlignModel ''fr'' \<notin> set tr2))"
  by (simp add: stage_defs step_defs limit_defs os_path_join_def enumerate_eq_zip xtts_langs_def)

section \<open>Anonymous and missing client identifiers\<close>

text \<open>
  Claim C3, as stated, fails in its last part: a request that omits \<open>client_id\<close> gets the
  default \<open>unknown_user\<close>, which is not the \<open>anonymous\<close> sentinel. With three recent
  timestamps stored for \<open>unknown_user\<close>, such a request is refused.
\<close>

theorem omitted_client_id_is_metered:
  "client_id ((request ''job_1'' ''hi'')\<lparr>client_id := None\<rparr>) = None
   \<and> fst (dub_video good_world ((request ''job_1'' ''hi'')\<lparr>client_id := None\<rparr>)
            (fresh_state\<lparr>rate_limiter :=
               [''unknown_user'' \<mapsto> [1699990000, 1699990001, 1699990002]]\<rparr>))
       = Return (Error ''Daily limit reached (3/3). Please try again in 24 hours.'')"
  by (simp add: stage_defs step_defs limit_defs request_client_id_def)

text \<open>
  Claim C3, amended. A call of the rate limiter whose client identifier is \<open>None\<close>, empty
  or \<open>anonymous\<close> is admitted whatever the store holds, and the store is left as it is;
  the rate-limit step of \<open>dub_video\<close> then goes on. A request that omits \<open>client_id\<close>
  is given the identifier \<open>unknown_user\<close>, which is metered like any known identifier:
  it is admitted exactly when fewer than 3 of its stored timestamps are still valid.
\<close>

theorem anonymous_client_always_admitted:
  "(cid = None \<or> cid = Some [] \<or> cid = Some ''anonymous'' \<longrightarrow>
      check_daily_limit cid now db = (True, db)
      \<and> rate_limit_check w cid st = (Next (), st, [CheckDailyLimit cid]))
   \<and> (client_id it = None \<longrightarrow>
        request_client_id it = Some ''unknown_user''
        \<and> (fst (check_daily_limit (request_client_id it) now db)
             \<longleftrightarrow> length (valid_timestamps now (stored_timestamps db ''unknown_user'')) < 3))"
  by (auto simp: check_daily_limit_def rate_limit_check_def request_client_id_def Let_def)

theorem anonymous_client_always_admitted_witness:
  "check_daily_limit (Some ''anonymous'') 1000 [''anonymous'' \<mapsto> [996, 997, 998, 999]]
     = (True, [''anonymous'' \<mapsto> [996, 997, 998, 999]])
   \<and> check_daily_limit None 1000 Map.empty = (True, Map.empty)
   \<and> rate_limit_check good_world (Some []) fresh_state
       = (Next (), fresh_state, [CheckDailyLimit (Some [])])
   \<and> client_id ((request ''job_1'' ''hi'')\<lparr>client_id := None\<rparr>) = None
   \<and> request_client_id ((request ''job_1'' ''hi'')\<lparr>client_id := None\<rparr>) = Some ''unknown_user''
   \<and> \<not> fst (check_daily_limit
              (request_client_id ((request ''job_1'' ''hi'')\<lparr>client_id := None\<rparr>)) 1000
              [''unknown_user'' \<mapsto> [997, 998, 999]])"
  using anonymous_client_always_admitted
          [of "Some ''anonymous''" 1000 "[''anonymous'' \<mapsto> [996, 997, 998, 999]]"
              good_world fresh_state "(request ''job_1'' ''hi'')\<lparr>client_id := None\<rparr>"]
        anonymous_client_always_admitted
          [of None 1000 Map.empty good_world fresh_state "request ''job_1'' ''hi''"]
        anonymous_client_always_admitted
          [of "Some []" 1000 "[''unknown_user'' \<mapsto> [997, 998, 999]]"
              good_world fresh_state "(request ''job_1'' ''hi'')\<lparr>client_id := None\<rparr>"]
  by (auto simp: valid_timestamps_def stored_timestamps_def)

section \<open>The gender classifier\<close>




section \<open>Translation\<close>

lemma translation_Next:
  assumes "google_translator w lang = Inr ()"
  shows "translation w lang segs st
    = (Next (map (translate_segment w) (enumerate 0 segs)), st,
       NewTranslator lang # map (\<lambda>seg. Translate (seg_text seg)) segs)"
  using assms by (simp add: translation_def step_defs)

lemma stages_1_5_Next_translated:
  assumes "stages_1_4 w it st = (Next (vocals, bg, segs), st1, tr)"
    and "google_translator w (request_target_lang it) = Inr ()"
  shows "stages_1_5 w it st
    = (Next (vocals, bg, map (translate_segment w) (enumerate 0 segs)), st1,
       tr @ NewTranslator (request_target_lang it) # map (\<lambda>seg. Translate (seg_text seg)) segs)"
  using assms by (simp add: stages_1_5_def and_then_def pass_def translation_Next)

lemma translate_segment_keeps:
  "seg_text (translate_segment w (i, seg)) = seg_text seg"
  "seg_start (translate_segment w (i, seg)) = seg_start seg"
  "seg_end (translate_segment w (i, seg)) = seg_end seg"
  "speaker (translate_segment w (i, seg)) = speaker seg"
  by (simp_all add: translate_segment_def)

lemma map_translate_keeps:
  assumes "\<And>i seg. f (translate_segment w (i, seg)) = f seg"
  shows "map f (map (translate_segment w) (enumerate n segs)) = map f segs"
  using assms by (induction segs arbitrary: n) auto

text \<open>
  Claim C6. Whenever a job gets as far as the translation step with transcript \<open>segs\<close>
  (and the translator object is constructed), the translated list has the same length
  and the same segments in the same order: texts, times and speakers are unchanged. The
  translated text of segment \<open>i\<close> is the translator's answer, and the segment's own text
  when the translation call raises. Whatever the translation calls do, \<open>dub_video\<close>
  continues with steps 6 to 8 (synthesis first) on the translated list.
\<close>

theorem translation_failure_keeps_segment:
  assumes e: "entry w it st = (Next (), st1, tr1)"
    and s: "stages_1_4 w it st1 = (Next (vocals, bg, segs), st2, tr2)"
    and t: "google_translator w (request_target_lang it) = Inr ()"
    and out: "out = map (translate_segment w) (enumerate 0 segs)"
  shows "length out = length segs
    \<and> map seg_text out = map seg_text segs
    \<and> map seg_start out = map seg_start segs
    \<and> map seg_end out = map seg_end segs
    \<and> map speaker out = map speaker segs
    \<and> (\<forall>i < length segs.
          translated_text (out ! i)
            = Some (case translator_translate w i (seg_text (segs ! i)) of
                      Inl e \<Rightarrow> seg_text (segs ! i)
                    | Inr translated \<Rightarrow> translated))
    \<and> (\<exists>tr5. dub_video w it st
          = (case stages_6_8 w it vocals bg out st2 of
               (r, st3, tr3) \<Rightarrow> (r, st3, tr1 @ tr2 @ tr5 @ tr3))
          \<and> tr5 = NewTranslator (request_target_lang it)
                    # map (\<lambda>seg. Translate (seg_text seg)) segs)"
proof -
  have len: "length out = length segs" by (simp add: out)
  have keep: "map seg_text out = map seg_text segs" "map seg_start out = map seg_start segs"
    "map seg_end out = map seg_end segs" "map speaker out = map speaker segs"
    unfolding out by (intro map_translate_keeps translate_segment_keeps)+
  have tt: "translated_text (out ! i)
            = Some (case translator_translate w i (seg_text (segs ! i)) of
                      Inl e \<Rightarrow> seg_text (segs ! i)
                    | Inr translated \<Rightarrow> translated)" if "i < length segs" for i
    using that by (simp add: out nth_enumerate_eq translate_segment_def)
  have "dub_video w it st
          = (case stages_6_8 w it vocals bg out st2 of
               (r, st3, tr3) \<Rightarrow> (r, st3, tr1 @ tr2 @ (NewTranslator (request_target_lang it)
                    # map (\<lambda>seg. Translate (seg_text seg)) segs) @ tr3))"
    using dub_video_reaches_synthesis[OF e stages_1_5_Next_translated[OF s t]]
    by (simp add: out)
  with len keep tt show ?thesis by blast
qed

theorem translation_failure_keeps_segment_witness:
  "translator_translate good_world 1 (seg_text goodbye) = Inl (Exception ''RequestError'')
   \<and> map translated_text (map (translate_segment good_world) (enumerate 0 [hello, goodbye]))
       = [Some ''namaste'', Some (seg_text goodbye)]
   \<and> fst (dub_video good_world (request ''job_1'' ''hi'') fresh_state)
       = Return (Success ''https://r2.example/dubbed/job_1.mp4'')"
proof -
  let ?it = "request ''job_1'' ''hi''"
  let ?v = "demucs_out ''job_1'' @ ''/htdemucs/audio/vocals.wav''"
  let ?b = "demucs_out ''job_1'' @ ''/htdemucs/audio/no_vocals.wav''"
  let ?out = "map (translate_segment good_world) (enumerate 0 [hello, goodbye])"
  obtain st1 tr1 where e: "entry good_world ?it fresh_state = (Next (), st1, tr1)"
    using entry_job_1[of good_world "''hi''"] by (cases "entry good_world ?it fresh_state") auto
  obtain st2 tr2 where s: "stages_1_4 good_world ?it st1 = (Next (?v, ?b, [hello, goodbye]), st2, tr2)"
    using stages_1_4_job_1[of good_world "''hi''" st1]
    by (cases "stages_1_4 good_world ?it st1") auto
  have t: "google_translator good_world (request_target_lang ?it) = Inr ()"
    by simp
  note c6 = translation_failure_keeps_segment[OF e s t refl]
  have out: "?out = [hello\<lparr>translated_text := Some ''namaste''\<rparr>,
                     goodbye\<lparr>translated_text := Some ''goodbye''\<rparr>]"
    by (simp add: enumerate_eq_zip translate_segment_def)
  have "fst (stages_6_8 good_world ?it ?v ?b ?out st2)
      = Return (Success ''https://r2.example/dubbed/job_1.mp4'')"
    unfolding out
    by (simp add: stage_defs step_defs xtts_langs_def enumerate_eq_zip split: option.splits)
  with c6 show ?thesis
    by (auto simp: out split: prod.splits)
qed

section \<open>Synthesis that yields no audio\<close>

lemma not_in_rmtree [simp]: "p \<notin> rmtree p dirs"
  by (simp add: rmtree_def)

lemma xtts_loop_no_audio:
  assumes "lang \<in> set xtts_langs" and "list_all (no_audio w jid lang vocals) ss"
  shows "fst (xtts_loop w vocals lang ss c) = c"
  using assms(2)
proof (induction ss arbitrary: c)
  case Nil
  show ?case by simp
next
  case (Cons a ss)
  obtain i seg where a: "a = (i, seg)" by (cases a)
  from Cons show ?case
    unfolding a using assms(1)
    by (auto simp: no_audio_def split_beta split: option.splits sum.splits)
qed

lemma edge_loop_no_audio:
  assumes "lang \<notin> set xtts_langs" and "job_voice w lang vocals = Inr voice"
    and "list_all (no_audio w jid lang vocals) ss"
  shows "fst (edge_loop w jid voice ss c) = c"
  using assms(3)
proof (induction ss arbitrary: c)
  case Nil
  show ?case by simp
next
  case (Cons a ss)
  obtain i seg where a: "a = (i, seg)" by (cases a)
  from Cons show ?case
    unfolding a using assms(1,2)
    by (auto simp: no_audio_def split_beta split: option.splits sum.splits)
qed

lemma select_voice_total: "\<exists>v. select_voice lang g = Inr v"
  by (auto simp: select_voice_def edge_voices_def default_voices_def Let_def split: option.splits)

lemma detect_gender_total: "\<exists>g. detect_gender w p = Inr g"
  by (auto simp: detect_gender_def split: sum.splits)

lemma job_voice_total: "\<exists>v. job_voice w lang vocals = Inr v"
  using detect_gender_total[of w vocals] select_voice_total
  by (auto simp: job_voice_def split: sum.splits)

lemma xtts_cloning_silent:
  assumes lang: "lang \<in> set xtts_langs"
    and model: "XTTS_MODEL st \<noteq> None \<or> load_xtts w = Inr ()"
    and quiet: "list_all (no_audio w jid lang vocals) (enumerate 0 segs)"
    and wr: "sf_write w (dubbed_audio jid) [] 24000 = Inr ()"
  shows "\<exists>st' tr. xtts_cloning w jid lang vocals segs st = (Next (), st', tr)
           \<and> fs st' = fs st \<and> SfWrite (dubbed_audio jid) [] 24000 \<in> set tr"
proof -
  obtain c tr where l: "xtts_loop w vocals lang (enumerate 0 segs) [] = (c, tr)"
    by (cases "xtts_loop w vocals lang (enumerate 0 segs) []") auto
  with xtts_loop_no_audio[OF lang quiet, of "[]"] have c: "c = []" by simp
  show ?thesis
    using model wr
    by (cases "XTTS_MODEL st")
       (auto simp: xtts_cloning_def l c step_defs write_dubbed_def)
qed

lemma edge_tts_fallback_silent:
  assumes lang: "lang \<notin> set xtts_langs"
    and quiet: "list_all (no_audio w jid lang vocals) (enumerate 0 segs)"
    and wr: "sf_write w (dubbed_audio jid) [] 24000 = Inr ()"
  shows "\<exists>st' tr. edge_tts_fallback w jid lang vocals segs st = (Next (), st', tr)
           \<and> fs st' = fs st \<and> SfWrite (dubbed_audio jid) [] 24000 \<in> set tr"
proof -
  obtain g where g: "detect_gender w vocals = Inr g"
    using detect_gender_total by blast
  obtain voice where v: "select_voice lang g = Inr voice"
    using select_voice_total by blast
  have jv: "job_voice w lang vocals = Inr voice"
    by (simp add: job_voice_def g v)
  obtain c tr where l: "edge_loop w jid voice (enumerate 0 segs) [] = (c, tr)"
    by (cases "edge_loop w jid voice (enumerate 0 segs) []") auto
  with edge_loop_no_audio[OF lang jv quiet, of "[]"] have c: "c = []" by simp
  show ?thesis
    using wr by (auto simp: edge_tts_fallback_def g v l c step_defs write_dubbed_def)
qed

lemma synthesis_silent:
  assumes model: "lang \<in> set xtts_langs \<longrightarrow> XTTS_MODEL st \<noteq> None \<or> load_xtts w = Inr ()"
    and quiet: "list_all (no_audio w jid lang vocals) (enumerate 0 segs)"
    and wr: "sf_write w (dubbed_audio jid) [] 24000 = Inr ()"
  shows "\<exists>st' tr. synthesis w jid lang vocals segs st = (Next (), st', tr)
           \<and> fs st' = fs st \<and> SfWrite (dubbed_audio jid) [] 24000 \<in> set tr"
  using assms xtts_cloning_silent[of lang st w jid vocals segs]
    edge_tts_fallback_silent[of lang w jid vocals segs st]
  by (auto simp: synthesis_def)

lemma mixing_ok:
  assumes "ffmpeg_run w (mix_graph jid bg) = Inr ()"
  shows "mixing w jid bg st = (Next (), st, [FfmpegRun (mix_graph jid bg) True])"
  using assms by (simp add: mixing_def call_def)

lemma mixing_ffmpeg_error:
  assumes "ffmpeg_run w (mix_graph jid bg) = Inl FfmpegError"
  shows "mixing w jid bg st
    = (Return (Error ''Mixing failed''), st\<lparr>fs := rmtree (job_dir jid) (fs st)\<rparr>,
       [FfmpegRun (mix_graph jid bg) True, RmTree (job_dir jid)])"
  using assms by (simp add: mixing_def step_defs discard_job_dir_def)

lemma mixing_other_error:
  assumes "ffmpeg_run w (mix_graph jid bg) = Inl e" and "e \<noteq> FfmpegError"
  shows "mixing w jid bg st = (Raise e, st, [FfmpegRun (mix_graph jid bg) True])"
  using assms by (cases e) (simp_all add: mixing_def call_def)

lemma upload_ok:
  assumes "r2_upload w (final_video jid) (''dubbed/'' @ jid @ ''.mp4'') = Inr url"
  shows "upload w jid st
    = (Return (Success url), st\<lparr>fs := rmtree (job_dir jid) (fs st)\<rparr>,
       [Upload (final_video jid) (''dubbed/'' @ jid @ ''.mp4''), RmTree (job_dir jid)])"
  using assms by (simp add: upload_def step_defs discard_job_dir_def)

text \<open>
  Claim C10. Let a job reach the synthesis step with segments of which every one either
  has no translated text or fails in its synthesis attempt. Then the dubbed track is
  written with no samples, and, the write, the encoder and the upload succeeding (and the
  cloning model being loaded or loadable on the cloning path), \<open>dub_video\<close> goes through
  mixing and upload and returns the success result with the retrieval locator; no error is
  reported for the synthesis step.
\<close>

theorem skipped_synthesis_still_succeeds:
  assumes e: "entry w it st = (Next (), st1, tr1)"
    and s: "stages_1_5 w it st1 = (Next (vocals, bg, segs), st2, tr2)"
    and quiet: "list_all (no_audio w (job_id it) (request_target_lang it) vocals)
                  (enumerate 0 segs)"
    and model: "request_target_lang it \<in> set xtts_langs \<longrightarrow>
                  XTTS_MODEL st2 \<noteq> None \<or> load_xtts w = Inr ()"
    and wr: "sf_write w (dubbed_audio (job_id it)) [] 24000 = Inr ()"
    and mix: "ffmpeg_run w (mix_graph (job_id it) bg) = Inr ()"
    and up: "r2_upload w (final_video (job_id it)) (''dubbed/'' @ job_id it @ ''.mp4'') = Inr url"
  shows "\<exists>st' tr. dub_video w it st = (Return (Success url), st', tr)
           \<and> SfWrite (dubbed_audio (job_id it)) [] 24000 \<in> set tr
           \<and> FfmpegRun (mix_graph (job_id it) bg) True \<in> set tr
           \<and> Upload (final_video (job_id it)) (''dubbed/'' @ job_id it @ ''.mp4'') \<in> set tr
           \<and> job_dir (job_id it) \<notin> fs st'"
proof -
  from synthesis_silent[OF model quiet wr] obtain st3 tr3 where
    syn: "synthesis w (job_id it) (request_target_lang it) vocals segs st2 = (Next (), st3, tr3)"
    and w3: "SfWrite (dubbed_audio (job_id it)) [] 24000 \<in> set tr3"
    by blast
  have "stages_6_8 w it vocals bg segs st2
    = (Return (Success url), st3\<lparr>fs := rmtree (job_dir (job_id it)) (fs st3)\<rparr>,
       tr3 @ [FfmpegRun (mix_graph (job_id it) bg) True,
              Upload (final_video (job_id it)) (''dubbed/'' @ job_id it @ ''.mp4''),
              RmTree (job_dir (job_id it))])"
    by (simp add: stages_6_8_def and_then_def syn mixing_ok[OF mix] upload_ok[OF up])
  with dub_video_reaches_synthesis[OF e s] w3 show ?thesis
    by simp
qed

theorem skipped_synthesis_still_succeeds_witness:
  "list_all (no_audio (good_world\<lparr>xtts_tts := (\<lambda>i t v l. Inl (Exception ''RuntimeError''))\<rparr>)
               ''job_1'' ''hi'' (demucs_out ''job_1'' @ ''/htdemucs/audio/vocals.wav''))
     (enumerate 0 [hello\<lparr>translated_text := Some ''namaste''\<rparr>,
                   goodbye\<lparr>translated_text := Some ''goodbye''\<rparr>])
   \<and> fst (dub_video (good_world\<lparr>xtts_tts := (\<lambda>i t v l. Inl (Exception ''RuntimeError''))\<rparr>)
            (request ''job_1'' ''hi'') fresh_state)
       = Return (Success ''https://r2.example/dubbed/job_1.mp4'')"
proof -
  let ?w = "good_world\<lparr>xtts_tts := (\<lambda>i t v l. Inl (Exception ''RuntimeError''))\<rparr>"
  let ?it = "request ''job_1'' ''hi''"
  let ?v = "demucs_out ''job_1'' @ ''/htdemucs/audio/vocals.wav''"
  let ?b = "demucs_out ''job_1'' @ ''/htdemucs/audio/no_vocals.wav''"
  let ?segs = "[hello\<lparr>translated_text := Some ''namaste''\<rparr>,
                goodbye\<lparr>translated_text := Some ''goodbye''\<rparr>]"
  obtain st1 tr1 where e: "entry ?w ?it fresh_state = (Next (), st1, tr1)"
    using entry_job_1[of ?w "''hi''"] by (cases "entry ?w ?it fresh_state") auto
  obtain st2 tr2 where s4: "stages_1_4 ?w ?it st1 = (Next (?v, ?b, [hello, goodbye]), st2, tr2)"
    using stages_1_4_job_1[of ?w "''hi''" st1]
    by (cases "stages_1_4 ?w ?it st1") auto
  have s: "stages_1_5 ?w ?it st1 = (Next (?v, ?b, ?segs), st2,
      tr2 @ NewTranslator (request_target_lang ?it)
        # map (\<lambda>seg. Translate (seg_text seg)) [hello, goodbye])"
    using stages_1_5_Next_translated[OF s4]
    by (simp add: enumerate_eq_zip translate_segment_def)
  have quiet: "list_all (no_audio ?w (job_id ?it) (request_target_lang ?it) ?v) (enumerate 0 ?segs)"
    by (simp add: enumerate_eq_zip no_audio_def xtts_langs_def)
  have c10: "\<exists>st' tr. dub_video ?w ?it fresh_state
      = (Return (Success ''https://r2.example/dubbed/job_1.mp4''), st', tr)
      \<and> SfWrite (dubbed_audio (job_id ?it)) [] 24000 \<in> set tr
      \<and> FfmpegRun (mix_graph (job_id ?it) ?b) True \<in> set tr
      \<and> Upload (final_video (job_id ?it)) (''dubbed/'' @ job_id ?it @ ''.mp4'') \<in> set tr
      \<and> job_dir (job_id ?it) \<notin> fs st'"
    by (rule skipped_synthesis_still_succeeds[OF e s quiet]) simp_all
  with quiet show ?thesis
    by auto
qed

section \<open>Selection of the synthesis mode\<close>

lemma gender_calls_append [simp]: "gender_calls (a @ b) = gender_calls a @ gender_calls b"
  by (induction a rule: gender_calls.induct) simp_all













lemma xtts_calls_append [simp]: "xtts_calls (a @ b) = xtts_calls a @ xtts_calls b"
  by (induction a rule: xtts_calls.induct) simp_all

lemma edge_calls_append [simp]: "edge_calls (a @ b) = edge_calls a @ edge_calls b"
  by (induction a rule: edge_calls.induct) simp_all












lemma hi_kn_langs [simp]: "''hi'' \<in> set xtts_langs" "''kn'' \<notin> set xtts_langs"
  by (simp_all add: xtts_langs_def)



section \<open>Mixing\<close>

lemma mix_graph_eq:
  "mix_graph jid bg =
     Output [Video (Input (video_path jid)),
             Filter [Input (dubbed_audio jid), Filter [Input bg] ''volume'' [AReal (1 / 2)] []]
               ''amix'' [] [(''inputs'', ANat 2), (''duration'', AStr ''first'')]]
       (final_video jid) [(''vcodec'', AStr ''copy''), (''acodec'', AStr ''aac'')]"
  by (simp add: mix_graph_def)

lemma mixed_audio_length_mix_graph:
  "mixed_audio_length len (mix_graph jid bg) = Some (len (dubbed_audio jid))"
  by (simp add: mix_graph_eq mixed_audio_length_def amix_end_def)

lemma ffmpeg_runs_of_job:
  assumes "list_all (job_event w it) tr" and "FfmpegRun g b \<in> set tr"
  shows "\<exists>vocals bg. job_stems w it = Some (vocals, bg) \<and> g = mix_graph (job_id it) bg \<and> b"
  using assms by (auto simp: list_all_iff job_event_def)

lemma dub_video_mixing_failure:
  assumes e: "entry w it st = (Next (), st1, tr1)"
    and s: "stages_1_5 w it st1 = (Next (vocals, bg, segs), st2, tr2)"
    and syn: "synthesis w (job_id it) (request_target_lang it) vocals segs st2 = (Next (), st3, tr3)"
    and mix: "ffmpeg_run w (mix_graph (job_id it) bg) = Inl FfmpegError"
  shows "dub_video w it st
    = (Return (Error ''Mixing failed''), st3\<lparr>fs := rmtree (job_dir (job_id it)) (fs st3)\<rparr>,
       tr1 @ tr2 @ tr3 @ [FfmpegRun (mix_graph (job_id it) bg) True, RmTree (job_dir (job_id it))])"
proof -
  have "stages_6_8 w it vocals bg segs st2
    = (Return (Error ''Mixing failed''), st3\<lparr>fs := rmtree (job_dir (job_id it)) (fs st3)\<rparr>,
       tr3 @ [FfmpegRun (mix_graph (job_id it) bg) True, RmTree (job_dir (job_id it))])"
    by (simp add: stages_6_8_def and_then_def syn mixing_ffmpeg_error[OF mix])
  with dub_video_reaches_synthesis[OF e s] show ?thesis by simp
qed

text \<open>
  Claim C8, as stated, fails in one part: the audio is not cut or extended to the shorter
  of the two mixed tracks. The graph that the concrete job hands to the encoder sets
  \<open>amix\<close>'s \<open>duration\<close> to \<open>first\<close>; with a dubbed track of 5 samples and a background
  of 3, the mixed audio has the 5 samples of the dubbed track, not the 3 of the shorter
  one.
\<close>

theorem mix_duration_is_first_input_not_shortest:
  "FfmpegRun (mix_graph ''job_1'' (demucs_out ''job_1'' @ ''/htdemucs/audio/no_vocals.wav'')) True
     \<in> set (snd (snd (dub_video good_world (request ''job_1'' ''hi'') fresh_state)))
   \<and> mixed_audio_length (\<lambda>f. if f = dubbed_audio ''job_1'' then 5 else 3)
        (mix_graph ''job_1'' (demucs_out ''job_1'' @ ''/htdemucs/audio/no_vocals.wav''))
       = Some 5
   \<and> mixed_audio_length (\<lambda>f. if f = dubbed_audio ''job_1'' then 5 else 3)
        (mix_graph ''job_1'' (demucs_out ''job_1'' @ ''/htdemucs/audio/no_vocals.wav''))
       \<noteq> Some (min 5 3)"
  by (simp add: mixed_audio_length_mix_graph stage_defs step_defs limit_defs os_path_join_def
        enumerate_eq_zip xtts_langs_def)

text \<open>
  Claim C8, amended. Every encoder run of a job is on the graph built from the job's
  background stem, overwriting the output. In that graph the background passes through
  \<open>volume\<close> 0.5, the video of the original file is written with the video codec \<open>copy\<close>,
  and the audio is the \<open>amix\<close> of two inputs, the dubbed track first, with \<open>duration\<close>
  \<open>first\<close>, encoded as \<open>aac\<close>: the mixed audio lasts as long as the first input, the
  dubbed track. When the encoder fails with \<open>ffmpeg.Error\<close>, \<open>dub_video\<close> returns the
  result \<open>Mixing failed\<close>, and the job directory has been removed before it returns.
\<close>

theorem mixer_graph_and_failure:
  assumes run: "dub_video w it st = (r, st', tr)"
  shows
   "(\<forall>g b. FfmpegRun g b \<in> set tr \<longrightarrow>
       (\<exists>vocals bg. job_stems w it = Some (vocals, bg) \<and> g = mix_graph (job_id it) bg \<and> b))
    \<and> (\<forall>bg. mix_graph (job_id it) bg =
          Output [Video (Input (video_path (job_id it))),
                  Filter [Input (dubbed_audio (job_id it)),
                          Filter [Input bg] ''volume'' [AReal (1 / 2)] []]
                    ''amix'' [] [(''inputs'', ANat 2), (''duration'', AStr ''first'')]]
            (final_video (job_id it)) [(''vcodec'', AStr ''copy''), (''acodec'', AStr ''aac'')])
    \<and> (\<forall>bg len. mixed_audio_length len (mix_graph (job_id it) bg)
                   = Some (len (dubbed_audio (job_id it))))
    \<and> (\<forall>st1 tr1 vocals bg segs st2 tr2 st3 tr3.
          entry w it st = (Next (), st1, tr1)
          \<and> stages_1_5 w it st1 = (Next (vocals, bg, segs), st2, tr2)
          \<and> synthesis w (job_id it) (request_target_lang it) vocals segs st2 = (Next (), st3, tr3)
          \<and> ffmpeg_run w (mix_graph (job_id it) bg) = Inl FfmpegError
          \<longrightarrow> r = Return (Error ''Mixing failed'')
              \<and> job_dir (job_id it) \<notin> fs st'
              \<and> tr = tr1 @ tr2 @ tr3 @ [FfmpegRun (mix_graph (job_id it) bg) True,
                                        RmTree (job_dir (job_id it))])"
proof -
  have ev: "list_all (job_event w it) tr"
    using satD(1)[OF sat_dub_video run] .
  have a: "\<forall>g b. FfmpegRun g b \<in> set tr \<longrightarrow>
       (\<exists>vocals bg. job_stems w it = Some (vocals, bg) \<and> g = mix_graph (job_id it) bg \<and> b)"
    by (intro allI impI) (rule ffmpeg_runs_of_job[OF ev])
  have b: "\<forall>bg. mix_graph (job_id it) bg =
          Output [Video (Input (video_path (job_id it))),
                  Filter [Input (dubbed_audio (job_id it)),
                          Filter [Input bg] ''volume'' [AReal (1 / 2)] []]
                    ''amix'' [] [(''inputs'', ANat 2), (''duration'', AStr ''first'')]]
            (final_video (job_id it)) [(''vcodec'', AStr ''copy''), (''acodec'', AStr ''aac'')]"
    by (intro allI) (rule mix_graph_eq)
  have c: "\<forall>bg len. mixed_audio_length len (mix_graph (job_id it) bg)
                   = Some (len (dubbed_audio (job_id it)))"
    by (intro allI) (rule mixed_audio_length_mix_graph)
  have d: "\<forall>st1 tr1 vocals bg segs st2 tr2 st3 tr3.
          entry w it st = (Next (), st1, tr1)
          \<and> stages_1_5 w it st1 = (Next (vocals, bg, segs), st2, tr2)
          \<and> synthesis w (job_id it) (request_target_lang it) vocals segs st2 = (Next (), st3, tr3)
          \<and> ffmpeg_run w (mix_graph (job_id it) bg) = Inl FfmpegError
          \<longrightarrow> r = Return (Error ''Mixing failed'')
              \<and> job_dir (job_id it) \<notin> fs st'
              \<and> tr = tr1 @ tr2 @ tr3 @ [FfmpegRun (mix_graph (job_id it) bg) True,
                                        RmTree (job_dir (job_id it))]"
  proof (intro allI impI, elim conjE)
    fix st1 tr1 vocals bg segs st2 tr2 st3 tr3
    assume "entry w it st = (Next (), st1, tr1)"
      and "stages_1_5 w it st1 = (Next (vocals, bg, segs), st2, tr2)"
      and "synthesis w (job_id it) (request_target_lang it) vocals segs st2 = (Next (), st3, tr3)"
      and "ffmpeg_run w (mix_graph (job_id it) bg) = Inl FfmpegError"
    from dub_video_mixing_failure[OF this] run
    show "r = Return (Error ''Mixing failed'')
              \<and> job_dir (job_id it) \<notin> fs st'
              \<and> tr = tr1 @ tr2 @ tr3 @ [FfmpegRun (mix_graph (job_id it) bg) True,
                                        RmTree (job_dir (job_id it))]"
      by auto
  qed
  show ?thesis
    by (intro conjI a b c d)
qed
theorem mixer_graph_and_failure_witness:
  "fst (dub_video (good_world\<lparr>ffmpeg_run := (\<lambda>g. Inl FfmpegError)\<rparr>)
          (request ''job_1'' ''hi'') fresh_state) = Return (Error ''Mixing failed'')
   \<and> job_dir ''job_1'' \<notin> fs (fst (snd (dub_video (good_world\<lparr>ffmpeg_run := (\<lambda>g. Inl FfmpegError)\<rparr>)
          (request ''job_1'' ''hi'') fresh_state)))
   \<and> RmTree (job_dir ''job_1'') \<in> set (snd (snd (dub_video
          (good_world\<lparr>ffmpeg_run := (\<lambda>g. Inl FfmpegError)\<rparr>)
          (request ''job_1'' ''hi'') fresh_state)))
   \<and> mixed_audio_length (\<lambda>f. if f = dubbed_audio ''job_1'' then 5 else 3)
        (mix_graph ''job_1'' ''no_vocals.wav'') = Some 5"
proof -
  let ?w = "good_world\<lparr>ffmpeg_run := (\<lambda>g. Inl FfmpegError)\<rparr>"
  let ?it = "request ''job_1'' ''hi''"
  let ?v = "demucs_out ''job_1'' @ ''/htdemucs/audio/vocals.wav''"
  let ?b = "demucs_out ''job_1'' @ ''/htdemucs/audio/no_vocals.wav''"
  let ?segs = "map (translate_segment ?w) (enumerate 0 [hello, goodbye])"
  obtain r st' tr where run: "dub_video ?w ?it fresh_state = (r, st', tr)"
    by (cases "dub_video ?w ?it fresh_state") auto
  obtain st1 tr1 where e: "entry ?w ?it fresh_state = (Next (), st1, tr1)"
    using entry_job_1[of ?w "''hi''"] by (cases "entry ?w ?it fresh_state") auto
  obtain st2 tr2 where s4: "stages_1_4 ?w ?it st1 = (Next (?v, ?b, [hello, goodbye]), st2, tr2)"
    using stages_1_4_job_1[of ?w "''hi''" st1]
    by (cases "stages_1_4 ?w ?it st1") auto
  have s: "stages_1_5 ?w ?it st1 = (Next (?v, ?b, ?segs), st2,
      tr2 @ NewTranslator (request_target_lang ?it)
        # map (\<lambda>seg. Translate (seg_text seg)) [hello, goodbye])"
    by (rule stages_1_5_Next_translated[OF s4]) simp
  have "fst (synthesis ?w (job_id ?it) (request_target_lang ?it) ?v ?segs st2) = Next ()"
    by (simp add: synthesis_def xtts_cloning_def write_dubbed_def step_defs enumerate_eq_zip
          translate_segment_def split: option.splits)
  then obtain st3 tr3 where
    syn: "synthesis ?w (job_id ?it) (request_target_lang ?it) ?v ?segs st2 = (Next (), st3, tr3)"
    by (cases "synthesis ?w (job_id ?it) (request_target_lang ?it) ?v ?segs st2") auto
  have mix: "ffmpeg_run ?w (mix_graph (job_id ?it) ?b) = Inl FfmpegError"
    by simp
  note graph = mixer_graph_and_failure[OF run]
  have len: "mixed_audio_length (\<lambda>f. if f = dubbed_audio ''job_1'' then 5 else 3)
           (mix_graph ''job_1'' ''no_vocals.wav'') = Some 5"
    using graph[THEN conjunct2, THEN conjunct2, THEN conjunct1, rule_format,
                of "\<lambda>f. if f = dubbed_audio ''job_1'' then 5 else 3" "''no_vocals.wav''"]
    by simp
  have "r = Return (Error ''Mixing failed'') \<and> job_dir ''job_1'' \<notin> fs st'
      \<and> RmTree (job_dir ''job_1'') \<in> set tr"
    using graph[THEN conjunct2, THEN conjunct2, THEN conjunct2, rule_format,
                OF conjI[OF e conjI[OF s conjI[OF syn mix]]]]
    by simp
  with len show ?thesis
    by (simp add: run)
qed

end
